theory Spec2Isabelle
  imports Main "HOL-Library.Sublist"
begin

section \<open>Go strings and the library functions the installer calls\<close>

text \<open>
  A Go string is a sequence of bytes; \<open>string\<close> (a list of 8-bit \<open>char\<close>) is the same thing.
  \<open>strings.TrimSpace\<close> and \<open>strings.Fields\<close> decode the bytes as UTF-8 and test each rune
  with \<open>unicode.IsSpace\<close>. The white-space runes are U+0009..U+000D, U+0020, U+0085, U+00A0,
  U+1680, U+2000..U+200A, U+2028, U+2029, U+202F, U+205F and U+3000; the table below lists
  their UTF-8 encodings. Every encoding starts with an ASCII byte or a UTF-8 lead byte, never
  with a continuation byte, and Go's decoder accepts exactly the shortest encodings, so a
  white-space rune is decoded at a position exactly when one of these encodings starts there
  (scanning forward) or ends there (scanning backward). Bytes that belong to any other rune,
  or to no valid rune, are passed over one at a time, which visits the same white-space
  positions as Go's rune-wise scan.
\<close>

definition white_space :: "string list" where
  "white_space =
    [[CHR 0x09], [CHR 0x0A], [CHR 0x0B], [CHR 0x0C], [CHR 0x0D], [CHR 0x20],
     [CHR 0xC2, CHR 0x85], [CHR 0xC2, CHR 0xA0],
     [CHR 0xE1, CHR 0x9A, CHR 0x80],
     [CHR 0xE2, CHR 0x80, CHR 0x80], [CHR 0xE2, CHR 0x80, CHR 0x81],
     [CHR 0xE2, CHR 0x80, CHR 0x82], [CHR 0xE2, CHR 0x80, CHR 0x83],
     [CHR 0xE2, CHR 0x80, CHR 0x84], [CHR 0xE2, CHR 0x80, CHR 0x85],
     [CHR 0xE2, CHR 0x80, CHR 0x86], [CHR 0xE2, CHR 0x80, CHR 0x87],
     [CHR 0xE2, CHR 0x80, CHR 0x88], [CHR 0xE2, CHR 0x80, CHR 0x89],
     [CHR 0xE2, CHR 0x80, CHR 0x8A],
     [CHR 0xE2, CHR 0x80, CHR 0xA8], [CHR 0xE2, CHR 0x80, CHR 0xA9],
     [CHR 0xE2, CHR 0x80, CHR 0xAF],
     [CHR 0xE2, CHR 0x81, CHR 0x9F],
     [CHR 0xE3, CHR 0x80, CHR 0x80]]"

text \<open>Width in bytes of the white-space rune at the front of \<open>s\<close>; 0 when there is none.\<close>

definition spaceLen :: "string \<Rightarrow> nat" where
  "spaceLen s = (case find (\<lambda>e. prefix e s) white_space of None \<Rightarrow> 0 | Some e \<Rightarrow> length e)"

text \<open>Width in bytes of the white-space rune at the end of \<open>s\<close>; 0 when there is none.\<close>

definition spaceLenLast :: "string \<Rightarrow> nat" where
  "spaceLenLast s = (case find (\<lambda>e. suffix e s) white_space of None \<Rightarrow> 0 | Some e \<Rightarrow> length e)"

text \<open>\<open>strings.TrimLeftFunc(s, unicode.IsSpace)\<close>: drop white-space runes from the front.\<close>

fun TrimLeft :: "string \<Rightarrow> string" where
  "TrimLeft [] = []"
| "TrimLeft (c # cs) =
     (let n = spaceLen (c # cs) in if n = 0 then c # cs else TrimLeft (drop (n - 1) cs))"

text \<open>
  \<open>strings.TrimRightFunc(s, unicode.IsSpace)\<close>: drop white-space runes from the end. The
  empty string has no last rune; the test for it is there for the termination proof.
\<close>

function TrimRight :: "string \<Rightarrow> string" where
  "TrimRight s =
     (let n = spaceLenLast s in
      if n = 0 \<or> s = [] then s else TrimRight (take (length s - n) s))"
  by pat_completeness auto
termination
  by (relation "measure length") auto

declare TrimRight.simps [simp del]

definition TrimSpace :: "string \<Rightarrow> string" where
  "TrimSpace s = TrimRight (TrimLeft s)"

text \<open>
  \<open>strings.Fields\<close>, that is \<open>FieldsFunc(s, unicode.IsSpace)\<close>: the maximal runs of bytes
  between white-space runes. \<open>cur\<close> is the span that is open (empty when none is).
\<close>

fun FieldsFunc :: "string \<Rightarrow> string \<Rightarrow> string list" where
  "FieldsFunc cur [] = (if cur = [] then [] else [cur])"
| "FieldsFunc cur (c # cs) =
     (let n = spaceLen (c # cs) in
      if n > 0 then
        (if cur = [] then FieldsFunc [] (drop (n - 1) cs)
         else cur # FieldsFunc [] (drop (n - 1) cs))
      else FieldsFunc (cur @ [c]) cs)"

definition Fields :: "string \<Rightarrow> string list" where
  "Fields s = FieldsFunc [] s"

text \<open>\<open>strings.HasPrefix\<close>: \<open>len(s) >= len(prefix) && s[:len(prefix)] == prefix\<close>.\<close>

definition HasPrefix :: "string \<Rightarrow> string \<Rightarrow> bool" where
  "HasPrefix s p = (length s \<ge> length p \<and> take (length p) s = p)"

text \<open>\<open>strings.Contains\<close>: \<open>substr\<close> occurs in \<open>s\<close> at some offset.\<close>

fun Contains :: "string \<Rightarrow> string \<Rightarrow> bool" where
  "Contains [] substr = HasPrefix [] substr"
| "Contains (c # cs) substr = (HasPrefix (c # cs) substr \<or> Contains cs substr)"

text \<open>
  \<open>strings.SplitSeq(s, "\n")\<close>: the pieces of \<open>s\<close> between line feeds, empty pieces included;
  \<open>cur\<close> is the piece being read.
\<close>

fun SplitSeqFrom :: "string \<Rightarrow> string \<Rightarrow> string list" where
  "SplitSeqFrom cur [] = [cur]"
| "SplitSeqFrom cur (c # cs) =
     (if c = CHR 0x0A then cur # SplitSeqFrom [] cs else SplitSeqFrom (cur @ [c]) cs)"

definition SplitSeq_newline :: "string \<Rightarrow> string list" where
  "SplitSeq_newline s = SplitSeqFrom [] s"

section \<open>cleanVersionInput\<close>

text \<open>The test of the loop body: a digit, a lowercase letter or a dot.\<close>

definition allowedByte :: "char \<Rightarrow> bool" where
  "allowedByte charByte =
     ((of_char (CHR ''0'') \<le> (of_char charByte :: nat) \<and> (of_char charByte :: nat) \<le> of_char (CHR ''9''))
      \<or> (of_char (CHR ''a'') \<le> (of_char charByte :: nat) \<and> (of_char charByte :: nat) \<le> of_char (CHR ''z''))
      \<or> charByte = CHR ''.'')"

text \<open>
  The loop \<open>for idx := range bytesVersion\<close>: the first two bytes are always kept; after them a
  byte is kept while it is allowed, and the loop breaks at the first byte that is not.
\<close>

fun keepLoop :: "nat \<Rightarrow> string \<Rightarrow> string \<Rightarrow> string" where
  "keepLoop idx [] out = out"
| "keepLoop idx (charByte # rest) out =
     (if idx < 2 then keepLoop (Suc idx) rest (out @ [charByte])
      else if allowedByte charByte then keepLoop (Suc idx) rest (out @ [charByte])
      else out)"

definition cleanVersionInput :: "string \<Rightarrow> string" where
  "cleanVersionInput versionInput =
     (let trimmed = TrimSpace versionInput in
      if trimmed = [] then trimmed
      else
        let fields = Fields trimmed;
            token = (if length fields > 0 then fields ! 0 else trimmed);
            prefixed = (if \<not> HasPrefix token ''go'' then ''go'' @ token else token)
        in keepLoop 0 prefixed [])"

section \<open>parseGoVersionOutput\<close>

text \<open>
  The errors of the program, one constructor for each place that makes one; an error that a
  library call returns is a \<open>SysError\<close> naming the call and its operand, and a command that
  does not exit with status 0 is an \<open>ExecError\<close> with its arguments.
\<close>

datatype error =
    UnableToParse string
  | NoInstalledGo
  | UnsupportedOS string
  | UnsupportedArch string
  | UnexpectedStatus nat string
  | InvalidVersionString string
  | DownloadFailed string nat
  | RequiresRoot
  | ExecError "string list"
  | SysError string string
  | SystemPathFailed string error

text \<open>The fallback loop \<open>for _, token := range fields\<close>.\<close>

fun scanTokens :: "string \<Rightarrow> string list \<Rightarrow> error + string" where
  "scanTokens output [] = Inl (UnableToParse output)"
| "scanTokens output (token # rest) =
     (if HasPrefix token ''go'' then
        (let versionToken = cleanVersionInput token in
         if HasPrefix versionToken ''go'' \<and> length versionToken > 2 then Inr versionToken
         else scanTokens output rest)
      else scanTokens output rest)"

definition parseGoVersionOutput :: "string \<Rightarrow> error + string" where
  "parseGoVersionOutput output =
     (let fields = Fields (TrimSpace output) in
      if length fields \<ge> 3 \<and> HasPrefix (fields ! 2) ''go''
      then Inr (cleanVersionInput (fields ! 2))
      else scanTokens output fields)"

section \<open>containsProfileLine\<close>

text \<open>The loop over the lines of the profile, with its two early returns.\<close>

fun profileLoop :: "string list \<Rightarrow> string \<Rightarrow> bool" where
  "profileLoop [] target = False"
| "profileLoop (ln # rest) target =
     (let line = TrimSpace ln in
      if line = target then True
      else if Contains line ''/usr/local/go/bin'' \<and> Contains line ''export PATH'' then True
      else profileLoop rest target)"

definition containsProfileLine :: "string \<Rightarrow> string \<Rightarrow> bool" where
  "containsProfileLine content target = profileLoop (SplitSeq_newline content) target"

section \<open>The host: file system, console, network and external commands\<close>

text \<open>
  Everything the installer does beyond computing on strings goes through the operating
  system. The part it can change is the \<open>world\<close>: the files (a path names a plain file with
  its content and whether this process may read it and write it, or a directory), what was
  printed on the two output streams, the HTTP requests sent, the external commands run, and
  the \<open>PATH\<close> variable of the process. A printed item is its text; where the source formats
  an error value with \<open>%v\<close> the item keeps the error itself.
\<close>

datatype node = File string bool bool | Dir

datatype printed = Text string | TextErr string error

text \<open>An HTTP response: status code, the body bytes received, and whether reading the body
  ends in an error after them.\<close>

datatype response = Response nat string bool

record world =
  files :: "string \<rightharpoonup> node"
  stdout :: "printed list"
  stderr :: "printed list"
  requests :: "string list"
  commands :: "string list list"
  PATH :: string

text \<open>
  The part the installer can only ask is the \<open>host\<close>: the platform constants of the runtime,
  the effective user id, the results of \<open>os.UserHomeDir\<close>, \<open>os.TempDir\<close>, \<open>filepath.Join\<close> and
  \<open>exec.LookPath\<close>, the name \<open>os.CreateTemp\<close> picks for a pattern, where a new directory
  entry may be made, on which paths a write fails (full device, quota), which URLs
  \<open>http.NewRequest\<close> accepts, what the server answers, and what an external command does:
  from its arguments and the files it finds, whether it exits with status 0, its combined
  output, and the files it leaves.
\<close>

record host =
  GOOS :: string
  GOARCH :: string
  euid :: nat
  UserHomeDir :: "string option"
  TempDir :: string
  Join :: "string \<Rightarrow> string \<Rightarrow> string"
  LookPath :: "string \<Rightarrow> string option"
  tempName :: "string \<Rightarrow> string"
  creatable :: "string \<Rightarrow> bool"
  writeFails :: "string \<Rightarrow> bool"
  requestOK :: "string \<Rightarrow> bool"
  httpGet :: "string \<Rightarrow> response option"
  run :: "string list \<Rightarrow> (string \<rightharpoonup> node) \<Rightarrow> bool \<times> string \<times> (string \<rightharpoonup> node)"

record flags =
  versionFlag :: string
  dryRunFlag :: bool
  noPathUpdate :: bool
  systemPathFlag :: bool
  downloadDirFlag :: string

subsection \<open>Console\<close>

definition log :: "string \<Rightarrow> world \<Rightarrow> world" where
  "log text w = w\<lparr>stdout := stdout w @ [Text (''[go-updater] '' @ text)]\<rparr>"

definition warn :: "string \<Rightarrow> world \<Rightarrow> world" where
  "warn text w = w\<lparr>stdout := stdout w @ [Text (''[go-updater][WARN] '' @ text)]\<rparr>"

definition warnErr :: "string \<Rightarrow> error \<Rightarrow> world \<Rightarrow> world" where
  "warnErr text err w = w\<lparr>stdout := stdout w @ [TextErr (''[go-updater][WARN] '' @ text) err]\<rparr>"

definition Println :: "string \<Rightarrow> world \<Rightarrow> world" where
  "Println text w = w\<lparr>stdout := stdout w @ [Text text]\<rparr>"

text \<open>\<open>must\<close> with an error: the labelled line on the error stream, then \<open>os.Exit(1)\<close>. The
  result of the program is its exit status and the world it leaves.\<close>

definition must :: "error \<Rightarrow> string \<Rightarrow> world \<Rightarrow> nat \<times> world" where
  "must err msg w =
     (1, w\<lparr>stderr := stderr w @ [TextErr (''[go-updater][ERROR] '' @ msg @ '': '') err]\<rparr>)"

subsection \<open>Files\<close>

text \<open>\<open>os.ReadFile\<close>: the content of a plain file this process may read.\<close>

definition os_ReadFile :: "world \<Rightarrow> string \<Rightarrow> error + string" where
  "os_ReadFile w path =
     (case files w path of
        Some (File data r wr) \<Rightarrow> if r then Inr data else Inl (SysError ''open'' path)
      | Some Dir \<Rightarrow> Inl (SysError ''read'' path)
      | None \<Rightarrow> Inl (SysError ''open'' path))"

text \<open>\<open>os.Stat\<close> returns no error: something has this name.\<close>

definition os_Stat :: "world \<Rightarrow> string \<Rightarrow> bool" where
  "os_Stat w path = (files w path \<noteq> None)"

text \<open>\<open>os.OpenFile(path, O_APPEND|O_WRONLY, 0)\<close>: the error, if any.\<close>

definition os_OpenFile_append :: "world \<Rightarrow> string \<Rightarrow> error option" where
  "os_OpenFile_append w path =
     (case files w path of
        Some (File data r wr) \<Rightarrow> if wr then None else Some (SysError ''open'' path)
      | Some Dir \<Rightarrow> Some (SysError ''open'' path)
      | None \<Rightarrow> Some (SysError ''open'' path))"

text \<open>\<open>os.OpenFile(path, O_CREATE|O_APPEND|O_WRONLY, 0o644)\<close>: as above, but a missing file is
  created empty, readable and writable by this process, where the host allows it.\<close>

definition os_OpenFile_create_append :: "host \<Rightarrow> world \<Rightarrow> string \<Rightarrow> error option \<times> world" where
  "os_OpenFile_create_append h w path =
     (case files w path of
        Some (File data r wr) \<Rightarrow> (if wr then None else Some (SysError ''open'' path), w)
      | Some Dir \<Rightarrow> (Some (SysError ''open'' path), w)
      | None \<Rightarrow>
          if creatable h path then (None, w\<lparr>files := (files w)(path \<mapsto> File [] True True)\<rparr>)
          else (Some (SysError ''open'' path), w))"

text \<open>\<open>os.Create\<close>: an existing writable file is truncated, a missing one is created.\<close>

definition os_Create :: "host \<Rightarrow> world \<Rightarrow> string \<Rightarrow> error option \<times> world" where
  "os_Create h w path =
     (case files w path of
        Some (File data r wr) \<Rightarrow>
          if wr then (None, w\<lparr>files := (files w)(path \<mapsto> File [] r wr)\<rparr>)
          else (Some (SysError ''open'' path), w)
      | Some Dir \<Rightarrow> (Some (SysError ''open'' path), w)
      | None \<Rightarrow>
          if creatable h path then (None, w\<lparr>files := (files w)(path \<mapsto> File [] True True)\<rparr>)
          else (Some (SysError ''open'' path), w))"

text \<open>\<open>os.CreateTemp("", pattern)\<close>: a new empty file in the temporary directory under the
  name the host picks; the name must be free.\<close>

definition os_CreateTemp :: "host \<Rightarrow> world \<Rightarrow> string \<Rightarrow> (error + string) \<times> world" where
  "os_CreateTemp h w pattern =
     (let path = Join h (TempDir h) (tempName h pattern) in
      if files w path = None \<and> creatable h path
      then (Inr path, w\<lparr>files := (files w)(path \<mapsto> File [] True True)\<rparr>)
      else (Inl (SysError ''open'' path), w))"

text \<open>
  Writing \<open>data\<close> at the end of an open file (\<open>WriteString\<close>, \<open>Flush\<close> of the buffered writer,
  \<open>io.Copy\<close>). A write that fails is taken to write nothing.
\<close>

definition writeEnd :: "host \<Rightarrow> string \<Rightarrow> string \<Rightarrow> world \<Rightarrow> error option \<times> world" where
  "writeEnd h path data w =
     (if writeFails h path then (Some (SysError ''write'' path), w)
      else
        (case files w path of
           Some (File old r wr) \<Rightarrow> (None, w\<lparr>files := (files w)(path \<mapsto> File (old @ data) r wr)\<rparr>)
         | Some Dir \<Rightarrow> (Some (SysError ''write'' path), w)
         | None \<Rightarrow> (Some (SysError ''write'' path), w)))"

text \<open>\<open>os.Remove\<close>, whose error the installer ignores.\<close>

definition os_Remove :: "string \<Rightarrow> world \<Rightarrow> world" where
  "os_Remove path w = w\<lparr>files := (files w)(path := None)\<rparr>"

text \<open>\<open>os.MkdirAll\<close>: nothing to do for a directory that exists; an error when a plain file
  has the name; otherwise the directory is made where the host allows it.\<close>

definition os_MkdirAll :: "host \<Rightarrow> string \<Rightarrow> world \<Rightarrow> error option \<times> world" where
  "os_MkdirAll h path w =
     (case files w path of
        Some Dir \<Rightarrow> (None, w)
      | Some (File data r wr) \<Rightarrow> (Some (SysError ''mkdir'' path), w)
      | None \<Rightarrow>
          if creatable h path then (None, w\<lparr>files := (files w)(path \<mapsto> Dir)\<rparr>)
          else (Some (SysError ''mkdir'' path), w))"

subsection \<open>External commands\<close>

text \<open>Running a command to its end: whether it exited with status 0, and its output.\<close>

definition exec :: "host \<Rightarrow> string list \<Rightarrow> world \<Rightarrow> (bool \<times> string) \<times> world" where
  "exec h argv w =
     (case run h argv (files w) of
        (ok, out, fs) \<Rightarrow> ((ok, out), w\<lparr>files := fs, commands := commands w @ [argv]\<rparr>))"

definition isRoot :: "host \<Rightarrow> bool" where
  "isRoot h = (euid h = 0)"

text \<open>\<open>runAsRoot\<close>; the output of the command goes to the console of the installer.\<close>

definition runAsRoot :: "host \<Rightarrow> string \<Rightarrow> string list \<Rightarrow> world \<Rightarrow> error option \<times> world" where
  "runAsRoot h cmd args w =
     (if isRoot h then
        (case exec h (cmd # args) w of
           ((ok, out), w1) \<Rightarrow>
             (if ok then None else Some (ExecError (cmd # args)),
              w1\<lparr>stdout := stdout w1 @ [Text out]\<rparr>))
      else
        (case LookPath h ''sudo'' of
           None \<Rightarrow> (Some RequiresRoot, w)
         | Some sudo \<Rightarrow>
             (let w1 = snd (exec h [''sudo'', ''-v''] w);
                  argv = [cmd] @ args
              in case exec h (''sudo'' # argv) w1 of
                   ((ok, out), w2) \<Rightarrow>
                     (if ok then None else Some (ExecError (''sudo'' # argv)),
                      w2\<lparr>stdout := stdout w2 @ [Text out]\<rparr>))))"

section \<open>resolveTarget\<close>

definition resolveTarget :: "host \<Rightarrow> error + string \<times> string" where
  "resolveTarget h =
     (let goos = GOOS h; goarch = GOARCH h in
      if goos \<noteq> ''linux'' \<and> goos \<noteq> ''darwin'' then Inl (UnsupportedOS goos)
      else if goarch = ''amd64'' \<or> goarch = ''arm64'' \<or> goarch = ''386'' then Inr (goos, goarch)
      else if goarch = ''x86_64'' then Inr (goos, ''amd64'')
      else if goarch = ''aarch64'' then Inr (goos, ''arm64'')
      else Inl (UnsupportedArch goarch))"

section \<open>fetchLatestVersion and downloadFile\<close>

text \<open>
  \<open>reader.ReadString('\n')\<close> on the first 1024 bytes of the body: the bytes up to and
  including the first line feed. Without a line feed it returns what there is; that is an
  error unless the end was reached (of the 1024 bytes or of a body read without error).
\<close>

definition readFirstLine :: "string \<Rightarrow> bool \<Rightarrow> string option" where
  "readFirstLine body broken =
     (let limited = take 1024 body;
          line = takeWhile (\<lambda>c. c \<noteq> CHR 0x0A) limited
      in if CHR 0x0A \<in> set limited then Some (line @ [CHR 0x0A])
         else if length body < 1024 \<and> broken then None
         else Some line)"

definition vURL :: string where
  "vURL = ''https://go.dev/VERSION?m=text''"

definition fetchLatestVersion :: "host \<Rightarrow> world \<Rightarrow> (error + string) \<times> world" where
  "fetchLatestVersion h w =
     (let w1 = w\<lparr>requests := requests w @ [vURL]\<rparr> in
      case httpGet h vURL of
        None \<Rightarrow> (Inl (SysError ''Get'' vURL), w1)
      | Some (Response status body broken) \<Rightarrow>
          if status \<noteq> 200 then (Inl (UnexpectedStatus status vURL), w1)
          else
            (case readFirstLine body broken of
               None \<Rightarrow> (Inl (SysError ''read'' vURL), w1)
             | Some line \<Rightarrow>
                 (let ver = TrimSpace line in
                  if ver = [] \<or> \<not> HasPrefix ver ''go'' then (Inl (InvalidVersionString ver), w1)
                  else (Inr ver, w1))))"

definition downloadFile :: "host \<Rightarrow> string \<Rightarrow> string \<Rightarrow> world \<Rightarrow> error option \<times> world" where
  "downloadFile h url toPath w =
     (case os_Create h w toPath of
        (Some err, w1) \<Rightarrow> (Some err, w1)
      | (None, w1) \<Rightarrow>
          if \<not> requestOK h url then (Some (SysError ''NewRequest'' url), w1)
          else
            (let w2 = w1\<lparr>requests := requests w1 @ [url]\<rparr> in
             case httpGet h url of
               None \<Rightarrow> (Some (SysError ''Do'' url), w2)
             | Some (Response status body broken) \<Rightarrow>
                 if status \<noteq> 200 then (Some (DownloadFailed url status), w2)
                 else
                   (case writeEnd h toPath body w2 of
                      (Some err, w3) \<Rightarrow> (Some err, w3)
                    | (None, w3) \<Rightarrow>
                        (if broken then Some (SysError ''read'' url) else None, w3))))"

section \<open>ensureUserPath\<close>

definition profileLine :: string where
  "profileLine = ''export PATH=$PATH:/usr/local/go/bin''"

definition candidates :: "host \<Rightarrow> string list" where
  "candidates h =
     (if GOOS h = ''darwin'' then [''.zprofile'', ''.zshrc'', ''.bash_profile'', ''.profile'']
      else [''.profile''])"

text \<open>The three \<open>Fprintln\<close> calls: an empty line, the comment, the export line.\<close>

definition profileBlock :: "string \<Rightarrow> string" where
  "profileBlock line =
     [CHR 0x0A] @ ''# Added by go-updater to expose Go binaries'' @ [CHR 0x0A] @ line @ [CHR 0x0A]"

text \<open>The first loop: the path of the first candidate that can be read and already has the
  line, if there is one.\<close>

fun alreadyPresent :: "host \<Rightarrow> world \<Rightarrow> string \<Rightarrow> string \<Rightarrow> string list \<Rightarrow> string option" where
  "alreadyPresent h w home line [] = None"
| "alreadyPresent h w home line (name # rest) =
     (let path = Join h home name in
      case os_ReadFile w path of
        Inr data \<Rightarrow>
          if containsProfileLine data line then Some path
          else alreadyPresent h w home line rest
      | Inl err \<Rightarrow> alreadyPresent h w home line rest)"

text \<open>Buffered writes of the block, \<open>Flush\<close>, and the log line.\<close>

definition appendBlock :: "host \<Rightarrow> string \<Rightarrow> string \<Rightarrow> world \<Rightarrow> error option \<times> world" where
  "appendBlock h path line w =
     (case writeEnd h path (profileBlock line) w of
        (Some err, w1) \<Rightarrow> (Some err, w1)
      | (None, w1) \<Rightarrow> (None, log (''Added PATH update to '' @ path) w1))"

text \<open>The second loop: append to the first candidate that exists; \<open>None\<close> when the loop ends
  without returning.\<close>

fun appendToFirstExisting ::
  "host \<Rightarrow> world \<Rightarrow> string \<Rightarrow> string \<Rightarrow> string list \<Rightarrow> (error option \<times> world) option" where
  "appendToFirstExisting h w home line [] = None"
| "appendToFirstExisting h w home line (name # rest) =
     (let path = Join h home name in
      if os_Stat w path then
        Some (case os_OpenFile_append w path of
                Some err \<Rightarrow> (Some err, w)
              | None \<Rightarrow> appendBlock h path line w)
      else appendToFirstExisting h w home line rest)"

definition ensureUserPath :: "host \<Rightarrow> world \<Rightarrow> error option \<times> world" where
  "ensureUserPath h w =
     (case UserHomeDir h of
        None \<Rightarrow> (Some (SysError ''UserHomeDir'' []), w)
      | Some home \<Rightarrow>
          (let line = profileLine in
           case alreadyPresent h w home line (candidates h) of
             Some path \<Rightarrow>
               (None, log (''User PATH already contains /usr/local/go/bin in '' @ path) w)
           | None \<Rightarrow>
               (case appendToFirstExisting h w home line (candidates h) of
                  Some result \<Rightarrow> result
                | None \<Rightarrow>
                    (let target = Join h home (hd (candidates h)) in
                     case os_OpenFile_create_append h w target of
                       (Some err, w1) \<Rightarrow> (Some err, w1)
                     | (None, w1) \<Rightarrow> appendBlock h target line w1))))"

section \<open>ensureSystemPath\<close>

text \<open>\<open>strings.ReplaceAll(s, "'", "'\''")\<close>.\<close>

definition escapeQuotes :: "string \<Rightarrow> string" where
  "escapeQuotes s = concat (map (\<lambda>c. if c = CHR 0x27 then [CHR 0x27, CHR 0x5C, CHR 0x27, CHR 0x27] else [c]) s)"

text \<open>
  The two branches of \<open>ensureSystemPath\<close> are the same statements over different constants:
  the staged content, the pattern of the temporary file, the drop-in file, the command of the
  fallback, and the texts of the messages.
\<close>

record staging =
  stagedContent :: string
  tempPattern :: string
  dropIn :: string
  fallbackCommand :: string
  addedText :: string
  failedText :: string
  appendedText :: string

definition stageAndInstall :: "host \<Rightarrow> staging \<Rightarrow> world \<Rightarrow> error option \<times> world" where
  "stageAndInstall h s w =
     (case os_CreateTemp h w (tempPattern s) of
        (Inl err, w1) \<Rightarrow> (Some err, w1)
      | (Inr tmpPath, w1) \<Rightarrow>
          (case writeEnd h tmpPath (stagedContent s) w1 of
             (Some err, w2) \<Rightarrow> (Some err, w2)
           | (None, w2) \<Rightarrow>
               (case runAsRoot h ''install'' [''-m'', ''0644'', tmpPath, dropIn s] w2 of
                  (None, w3) \<Rightarrow> (None, log (addedText s) (os_Remove tmpPath w3))
                | (Some err1, w3) \<Rightarrow>
                    (case runAsRoot h ''sh'' [''-c'', fallbackCommand s] w3 of
                       (Some err, w4) \<Rightarrow>
                         (Some (SystemPathFailed (failedText s) err), os_Remove tmpPath w4)
                     | (None, w4) \<Rightarrow> (None, log (appendedText s) (os_Remove tmpPath w4))))))"

definition darwinStaging :: staging where
  "darwinStaging =
     \<lparr>stagedContent = ''/usr/local/go/bin'' @ [CHR 0x0A],
      tempPattern = ''golang-path-*.txt'',
      dropIn = ''/etc/paths.d/go'',
      fallbackCommand = ''printf '' @ [CHR 0x27]
        @ escapeQuotes (''export PATH='' @ [CHR 0x22] @ ''$PATH:/usr/local/go/bin'' @ [CHR 0x22]
            @ [CHR 0x0A])
        @ [CHR 0x27] @ '' >> /etc/zprofile'',
      addedText = ''Added system PATH at /etc/paths.d/go'',
      failedText = ''failed to update /etc/paths.d or /etc/zprofile'',
      appendedText = ''Appended system PATH to /etc/zprofile''\<rparr>"

definition linuxContent :: string where
  "linuxContent = ''# /etc/profile.d/golang-path.sh'' @ [CHR 0x0A] @ ''# Added by go-updater''
     @ [CHR 0x0A] @ ''export PATH='' @ [CHR 0x22] @ ''$PATH:/usr/local/go/bin'' @ [CHR 0x22]
     @ [CHR 0x0A]"

definition linuxStaging :: staging where
  "linuxStaging =
     \<lparr>stagedContent = linuxContent,
      tempPattern = ''golang-path-*.sh'',
      dropIn = ''/etc/profile.d/golang-path.sh'',
      fallbackCommand = ''printf '' @ [CHR 0x27] @ escapeQuotes linuxContent @ [CHR 0x27]
        @ '' >> /etc/profile'',
      addedText = ''Added system PATH at /etc/profile.d/golang-path.sh'',
      failedText = ''failed to update /etc/profile.d or /etc/profile'',
      appendedText = ''Appended system PATH to /etc/profile''\<rparr>"

definition ensureSystemPath :: "host \<Rightarrow> world \<Rightarrow> error option \<times> world" where
  "ensureSystemPath h w =
     (if GOOS h = ''darwin'' then stageAndInstall h darwinStaging w
      else stageAndInstall h linuxStaging w)"

section \<open>getInstalledGoVersion\<close>

text \<open>One probe: run the binary with \<open>version\<close> and parse what it prints.\<close>

definition probe :: "host \<Rightarrow> string \<Rightarrow> world \<Rightarrow> string option \<times> world" where
  "probe h path w =
     (case exec h [path, ''version''] w of
        ((ok, out), w1) \<Rightarrow>
          (if ok then (case parseGoVersionOutput out of Inr v \<Rightarrow> Some v | Inl perr \<Rightarrow> None)
           else None, w1))"

definition stdGo :: string where
  "stdGo = ''/usr/local/go/bin/go''"

definition fallbackProbe :: "host \<Rightarrow> world \<Rightarrow> (error + string) \<times> world" where
  "fallbackProbe h w =
     (case LookPath h ''go'' of
        Some path \<Rightarrow>
          (case probe h path w of
             (Some v, w1) \<Rightarrow> (Inr v, w1)
           | (None, w1) \<Rightarrow> (Inl NoInstalledGo, w1))
      | None \<Rightarrow> (Inl NoInstalledGo, w))"

definition getInstalledGoVersion :: "host \<Rightarrow> world \<Rightarrow> (error + string) \<times> world" where
  "getInstalledGoVersion h w =
     (if os_Stat w stdGo \<and> files w stdGo \<noteq> Some Dir then
        (case probe h stdGo w of
           (Some v, w1) \<Rightarrow> (Inr v, w1)
         | (None, w1) \<Rightarrow> fallbackProbe h w1)
      else fallbackProbe h w)"

section \<open>printPlan and main\<close>

definition printPlan ::
  "string \<Rightarrow> string \<Rightarrow> string \<Rightarrow> string \<Rightarrow> string \<Rightarrow> bool \<Rightarrow> bool \<Rightarrow> world \<Rightarrow> world" where
  "printPlan version goos goarch url tarPath noPath system w =
     (let w1 = Println ''Plan (dry-run):'' w;
          w2 = Println (''- Determine version: '' @ version) w1;
          w3 = Println (''- Download '' @ url @ '' -> '' @ tarPath) w2;
          w4 = Println ''- Remove any previous /usr/local/go'' w3;
          w5 = Println ''- Extract archive into /usr/local'' w4;
          w6 = (if \<not> noPath then
                  (let w5a = Println
                         (''- Add '' @ [CHR 0x27] @ ''/usr/local/go/bin'' @ [CHR 0x27]
                            @ '' to PATH in your shell profile (idempotent)'') w5
                   in if system then
                        (if goos = ''darwin''
                         then Println ''- Also add system-wide PATH via /etc/paths.d (requires sudo)'' w5a
                         else Println ''- Also add system-wide PATH via /etc/profile.d (requires sudo)'' w5a)
                      else w5a)
                else Println ''- Skip PATH update (per --no-path-update)'' w5)
      in Println (''- Verify with '' @ [CHR 0x27] @ ''/usr/local/go/bin/go version'' @ [CHR 0x27]) w6)"

text \<open>Lines 69 to 75 of \<open>main\<close>: the archive is downloaded unless something exists at its path.\<close>

definition useOrDownload :: "host \<Rightarrow> string \<Rightarrow> string \<Rightarrow> world \<Rightarrow> error option \<times> world" where
  "useOrDownload h url tarPath w =
     (if os_Stat w tarPath then (None, log (''Using existing archive: '' @ tarPath) w)
      else
        (case downloadFile h url tarPath w of
           (Some err, w1) \<Rightarrow> (Some err, w1)
         | (None, w1) \<Rightarrow> (None, log (''Downloaded: '' @ tarPath) w1)))"

text \<open>Lines 84 to 94: the profile of the user, then on request the system-wide entry, whose
  failure is only a warning, then the \<open>PATH\<close> of the process itself.\<close>

definition updatePaths :: "host \<Rightarrow> flags \<Rightarrow> world \<Rightarrow> error option \<times> world" where
  "updatePaths h fl w =
     (if \<not> noPathUpdate fl then
        (case ensureUserPath h w of
           (Some err, w1) \<Rightarrow> (Some err, w1)
         | (None, w1) \<Rightarrow>
             (let w2 = (if systemPathFlag fl then
                          (case ensureSystemPath h w1 of
                             (Some err, w1a) \<Rightarrow> warnErr ''system-wide PATH update failed: '' err w1a
                           | (None, w1a) \<Rightarrow> w1a)
                        else w1)
              in (None, w2\<lparr>PATH := PATH w2 @ '':'' @ ''/usr/local/go/bin''\<rparr>)))
      else (None, w))"

text \<open>Lines 96 to 106: the installed binary reports its version.\<close>

definition verify :: "host \<Rightarrow> string \<Rightarrow> world \<Rightarrow> nat \<times> world" where
  "verify h version w =
     (case exec h [''/usr/local/go/bin/go'', ''version''] w of
        ((ok, out), w1) \<Rightarrow>
          if \<not> ok then
            must (ExecError [''/usr/local/go/bin/go'', ''version''])
              (''verify: running '' @ [CHR 0x27] @ ''/usr/local/go/bin/go version'' @ [CHR 0x27]
                 @ [CHR 0x0A] @ ''Output: '' @ out) w1
          else
            (let w2 = w1\<lparr>stdout := stdout w1 @ [Text out]\<rparr>;
                 w3 = (if \<not> Contains out version then
                         warn (''Installed Go reported '' @ [CHR 0x27] @ TrimSpace out @ [CHR 0x27]
                                 @ '' which does not contain expected version '' @ [CHR 0x27]
                                 @ version @ [CHR 0x27]) w2
                       else w2);
                 w4 = log (''Go '' @ version @ '' installed successfully.'') w3
             in (0, log (''Note: You may need to start a new shell session for PATH changes to take effect, or run: ''
                     @ [CHR 0x27] @ ''source ~/.profile'' @ [CHR 0x27] @ '' (Linux) or ''
                     @ [CHR 0x27] @ ''source ~/.zprofile'' @ [CHR 0x27] @ '' (macOS)'') w4)))"

text \<open>Lines 69 to 106 of \<open>main\<close>, after the dry-run return.\<close>

definition install :: "host \<Rightarrow> flags \<Rightarrow> string \<Rightarrow> string \<Rightarrow> string \<Rightarrow> world \<Rightarrow> nat \<times> world" where
  "install h fl version url tarPath w =
     (case useOrDownload h url tarPath w of
        (Some err, w1) \<Rightarrow> must err ''download archive'' w1
      | (None, w1) \<Rightarrow>
          (case runAsRoot h ''rm'' [''-rf'', ''/usr/local/go''] w1 of
             (Some err, w2) \<Rightarrow> must err ''remove previous /usr/local/go'' w2
           | (None, w2) \<Rightarrow>
               (case runAsRoot h ''tar'' [''-C'', ''/usr/local'', ''-xzf'', tarPath] w2 of
                  (Some err, w3) \<Rightarrow> must err ''extract archive to /usr/local'' w3
                | (None, w3) \<Rightarrow>
                    (case updatePaths h fl (log ''Extracted to /usr/local/go'' w3) of
                       (Some err, w4) \<Rightarrow> must err ''ensure user PATH in ~/.profile'' w4
                     | (None, w4) \<Rightarrow> verify h version w4))))"

definition main :: "host \<Rightarrow> flags \<Rightarrow> world \<Rightarrow> nat \<times> world" where
  "main h fl w =
     (case (if TrimSpace (versionFlag fl) = [] then fetchLatestVersion h w
            else (Inr (cleanVersionInput (versionFlag fl)), w)) of
        (Inl err, w1) \<Rightarrow> must err ''fetch latest version'' w1
      | (Inr version, w1) \<Rightarrow>
          (case getInstalledGoVersion h w1 of
             (installed, w2) \<Rightarrow>
               if installed = Inr version then
                 (0, log (''Go is already up to date ('' @ version @ ''). Nothing to do.'') w2)
               else
                 (case resolveTarget h of
                    Inl err \<Rightarrow> must err ''resolve target platform'' w2
                  | Inr (goos, goarch) \<Rightarrow>
                      (let tarName = version @ ''.'' @ goos @ ''-'' @ goarch @ ''.tar.gz'';
                           url = ''https://go.dev/dl/'' @ tarName;
                           dlDir = (if downloadDirFlag fl = [] then TempDir h
                                    else downloadDirFlag fl)
                       in case os_MkdirAll h dlDir w2 of
                            (Some err, w3) \<Rightarrow> must err ''create download dir'' w3
                          | (None, w3) \<Rightarrow>
                              (let tarPath = Join h dlDir tarName;
                                   w4 = log (''Target version: '' @ version) w3;
                                   w5 = log (''Platform: '' @ goos @ ''/'' @ goarch) w4;
                                   w6 = log (''Download: '' @ url @ [CHR 0x0A] @ ''       to: ''
                                               @ tarPath) w5
                               in if dryRunFlag fl then
                                    (0, printPlan version goos goarch url tarPath
                                          (noPathUpdate fl) (systemPathFlag fl) w6)
                                  else install h fl version url tarPath w6)))))"

section \<open>Notions used to state the properties of the installer\<close>

text \<open>The candidate profile files of the user, in the order \<open>ensureUserPath\<close> tries them.\<close>

definition profilePaths :: "host \<Rightarrow> string list" where
  "profilePaths h =
     (case UserHomeDir h of None \<Rightarrow> [] | Some home \<Rightarrow> map (Join h home) (candidates h))"

subsection \<open>Concrete hosts and worlds for the examples\<close>

definition plainJoin :: "string \<Rightarrow> string \<Rightarrow> string" where
  "plainJoin dir name = dir @ ''/'' @ name"

text \<open>A Linux machine, an unprivileged user without \<open>sudo\<close>, no Go installed, a network that
  does not answer, and external commands that fail without touching a file.\<close>

definition linuxHost :: host where
  "linuxHost = \<lparr>GOOS = ''linux'', GOARCH = ''amd64'', euid = 1000,
      UserHomeDir = Some ''/home/u'', TempDir = ''/tmp'', Join = plainJoin,
      LookPath = (\<lambda>name. None),
      tempName = (\<lambda>pattern. takeWhile (\<lambda>c. c \<noteq> CHR ''*'') pattern @ ''2091882927''
        @ drop 1 (dropWhile (\<lambda>c. c \<noteq> CHR ''*'') pattern)),
      creatable = (\<lambda>path. True), writeFails = (\<lambda>path. False), requestOK = (\<lambda>url. True),
      httpGet = (\<lambda>url. None), run = (\<lambda>argv fs. (False, [], fs))\<rparr>"

definition emptyWorld :: world where
  "emptyWorld = \<lparr>files = Map.empty, stdout = [], stderr = [], requests = [], commands = [],
      PATH = ''/usr/bin''\<rparr>"

text \<open>A profile that exports the directory in another phrasing.\<close>

definition otherPhrasing :: string where
  "otherPhrasing = ''export PATH=/usr/local/go/bin:$PATH'' @ [CHR 0x0A]"

definition phrasedProfile :: world where
  "phrasedProfile = emptyWorld\<lparr>files := [''/home/u/.profile'' \<mapsto> File otherPhrasing True True]\<rparr>"

text \<open>The same profile with mode 0200: the user may write it but not read it.\<close>

definition writeOnlyProfile :: world where
  "writeOnlyProfile = emptyWorld\<lparr>files := [''/home/u/.profile'' \<mapsto> File otherPhrasing False True]\<rparr>"

text \<open>The same machine when every write fails: the device is full.\<close>

definition fullDisk :: host where
  "fullDisk = linuxHost\<lparr>writeFails := (\<lambda>path. True)\<rparr>"

text \<open>A dry run with a version given and a download directory that does not exist yet.\<close>

definition dryRun :: flags where
  "dryRun = \<lparr>versionFlag = ''go1.25.1'', dryRunFlag = True, noPathUpdate = False,
      systemPathFlag = False, downloadDirFlag = ''/tmp/go-dl''\<rparr>"

text \<open>A machine of an architecture the installer does not know, and a server that answers
  the version request.\<close>

definition riscvHost :: host where
  "riscvHost = linuxHost\<lparr>GOARCH := ''riscv64'',
      httpGet := (\<lambda>url. Some (Response 200 (''go1.25.1'' @ [CHR 0x0A] @ ''time 2025-08-27'') False))\<rparr>"

definition latest :: flags where
  "latest = \<lparr>versionFlag = [], dryRunFlag = False, noPathUpdate = False,
      systemPathFlag = False, downloadDirFlag = []\<rparr>"

definition pinned :: flags where
  "pinned = \<lparr>versionFlag = ''1.25.1'', dryRunFlag = False, noPathUpdate = True,
      systemPathFlag = False, downloadDirFlag = []\<rparr>"





section \<open>The reference algorithm of the specification\<close>

text \<open>
  The normalizer as the specification words it: trim; take the first white-space separated
  token; prepend the prefix when it is missing; keep the prefix and after it the digits,
  lowercase letters and dots up to the first other character.
\<close>

fun untilSpace :: "string \<Rightarrow> string" where
  "untilSpace [] = []"
| "untilSpace (c # cs) = (if spaceLen (c # cs) > 0 then [] else c # untilSpace cs)"

definition firstToken :: "string \<Rightarrow> string" where
  "firstToken s = untilSpace (TrimLeft s)"

definition normalize_spec :: "string \<Rightarrow> string" where
  "normalize_spec input =
     (let t = TrimSpace input in
      if t = [] then t
      else
        let tok = firstToken t;
            tok' = (if prefix ''go'' tok then tok else ''go'' @ tok)
        in take 2 tok' @
           takeWhile (\<lambda>c. c \<in> set ''0123456789'' \<union> set ''abcdefghijklmnopqrstuvwxyz'' \<union> {CHR ''.''})
             (drop 2 tok'))"

subsection \<open>An auxiliary notion for the proofs\<close>

text \<open>The bytes that occur in the encoding of some white-space rune.\<close>

definition spaceBytes :: "char set" where
  "spaceBytes = set (concat white_space)"

section \<open>Library functions: basic facts\<close>

lemma HasPrefix_prefix: "HasPrefix s p = prefix p s"
  by (auto simp: HasPrefix_def prefix_def) (metis append_eq_conv_conj)

lemma Contains_sublist: "Contains s sub = sublist sub s"
  by (induction s) (auto simp: HasPrefix_prefix sublist_Cons_right)

lemma find_Some_in: "find P xs = Some x \<Longrightarrow> P x \<and> x \<in> set xs"
  by (induction xs) (auto split: if_splits)

lemma white_space_nonempty: "e \<in> set white_space \<Longrightarrow> e \<noteq> []"
  by (auto simp: white_space_def)

lemma spaceLen_0_iff: "spaceLen s = 0 \<longleftrightarrow> (\<forall>e \<in> set white_space. \<not> prefix e s)"
proof -
  have ne: "\<forall>e \<in> set white_space. e \<noteq> []" by (simp add: white_space_def)
  show ?thesis
    unfolding spaceLen_def using ne
    by (auto simp: find_None_iff split: option.splits dest!: find_Some_iff[THEN iffD1])
qed

lemma spaceLenLast_0_iff: "spaceLenLast s = 0 \<longleftrightarrow> (\<forall>e \<in> set white_space. \<not> suffix e s)"
proof -
  have ne: "\<forall>e \<in> set white_space. e \<noteq> []" by (simp add: white_space_def)
  show ?thesis
    unfolding spaceLenLast_def using ne
    by (auto simp: find_None_iff split: option.splits dest!: find_Some_iff[THEN iffD1])
qed

lemma spaceLen_Nil: "spaceLen [] = 0"
  by (auto simp: spaceLen_0_iff dest: white_space_nonempty)

lemma spaceLen_TrimLeft: "spaceLen (TrimLeft s) = 0"
  by (induction s rule: TrimLeft.induct) (auto simp: Let_def spaceLen_Nil)

lemma TrimLeft_id: "spaceLen s = 0 \<Longrightarrow> TrimLeft s = s"
  by (cases s) simp_all

lemma TrimRight_prefix: "prefix (TrimRight s) s"
proof (induction s rule: TrimRight.induct)
  case (1 s)
  show ?case
  proof (cases "spaceLenLast s = 0 \<or> s = []")
    case True
    then show ?thesis by (subst TrimRight.simps) auto
  next
    case False
    then have "prefix (TrimRight (take (length s - spaceLenLast s) s))
        (take (length s - spaceLenLast s) s)"
      using 1 by simp
    moreover have "prefix (take (length s - spaceLenLast s) s) s" by (rule take_is_prefix)
    ultimately have "prefix (TrimRight (take (length s - spaceLenLast s) s)) s"
      by (rule prefix_order.trans)
    then show ?thesis using False by (subst TrimRight.simps) (simp add: Let_def)
  qed
qed

lemma spaceLen_prefix_0: "spaceLen s = 0 \<Longrightarrow> prefix p s \<Longrightarrow> spaceLen p = 0"
  unfolding spaceLen_0_iff by (meson prefix_order.trans)

lemma spaceLen_TrimSpace: "spaceLen (TrimSpace s) = 0"
  unfolding TrimSpace_def by (rule spaceLen_prefix_0 [OF spaceLen_TrimLeft TrimRight_prefix])

subsection \<open>Strings without white space\<close>

lemma plain_spaceLen:
  assumes "set s \<inter> spaceBytes = {}"
  shows "spaceLen s = 0"
proof -
  have "\<not> prefix e s" if e: "e \<in> set white_space" for e
  proof
    assume p: "prefix e s"
    from e have "e \<noteq> []" by (rule white_space_nonempty)
    then have "hd e \<in> set e" by simp
    with p have "hd e \<in> set s" by (auto simp: prefix_def)
    moreover from e \<open>hd e \<in> set e\<close> have "hd e \<in> spaceBytes" by (auto simp: spaceBytes_def)
    ultimately show False using assms by auto
  qed
  then show ?thesis by (simp add: spaceLen_0_iff)
qed

lemma plain_spaceLenLast:
  assumes "set s \<inter> spaceBytes = {}"
  shows "spaceLenLast s = 0"
proof -
  have "\<not> suffix e s" if e: "e \<in> set white_space" for e
  proof
    assume p: "suffix e s"
    from e have "e \<noteq> []" by (rule white_space_nonempty)
    then have "hd e \<in> set e" by simp
    with p have "hd e \<in> set s" by (auto simp: suffix_def)
    moreover from e \<open>hd e \<in> set e\<close> have "hd e \<in> spaceBytes" by (auto simp: spaceBytes_def)
    ultimately show False using assms by auto
  qed
  then show ?thesis by (simp add: spaceLenLast_0_iff)
qed

lemma plain_TrimSpace: "set s \<inter> spaceBytes = {} \<Longrightarrow> TrimSpace s = s"
  by (cases s) (simp_all add: TrimSpace_def TrimRight.simps plain_spaceLen plain_spaceLenLast)

lemma plain_FieldsFunc:
  "set s \<inter> spaceBytes = {} \<Longrightarrow> FieldsFunc cur s = (if cur @ s = [] then [] else [cur @ s])"
proof (induction s arbitrary: cur)
  case Nil
  then show ?case by simp
next
  case (Cons c cs)
  from Cons.prems have "spaceLen (c # cs) = 0" by (rule plain_spaceLen)
  moreover from Cons.prems have "set cs \<inter> spaceBytes = {}" by auto
  ultimately show ?case using Cons.IH [of "cur @ [c]"] by simp
qed

lemma allowed_not_space: "c \<in> set ''0123456789abcdefghijklmnopqrstuvwxyz.'' \<Longrightarrow> c \<notin> spaceBytes"
  by (auto simp: spaceBytes_def white_space_def)

subsection \<open>The first field of a trimmed string\<close>

lemma FieldsFunc_first:
  "cur @ untilSpace s \<noteq> [] \<Longrightarrow> \<exists>rest. FieldsFunc cur s = (cur @ untilSpace s) # rest"
proof (induction s arbitrary: cur)
  case Nil
  then show ?case by simp
next
  case (Cons c cs)
  show ?case
  proof (cases "spaceLen (c # cs) > 0")
    case True
    with Cons.prems show ?thesis by (simp add: Let_def)
  next
    case False
    then have "FieldsFunc cur (c # cs) = FieldsFunc (cur @ [c]) cs" by simp
    moreover have "\<exists>rest. FieldsFunc (cur @ [c]) cs = ((cur @ [c]) @ untilSpace cs) # rest"
      by (rule Cons.IH) simp
    ultimately show ?thesis using False by simp
  qed
qed

lemma Fields_trimmed:
  assumes "TrimSpace x \<noteq> []"
  shows "\<exists>rest. Fields (TrimSpace x) = firstToken (TrimSpace x) # rest"
proof -
  have z: "spaceLen (TrimSpace x) = 0" by (rule spaceLen_TrimSpace)
  then have "untilSpace (TrimSpace x) \<noteq> []" using assms by (cases "TrimSpace x") auto
  then have "\<exists>rest. FieldsFunc [] (TrimSpace x) = ([] @ untilSpace (TrimSpace x)) # rest"
    by (intro FieldsFunc_first) simp
  then show ?thesis by (simp add: Fields_def firstToken_def TrimLeft_id [OF z])
qed

section \<open>The version normalizer\<close>

lemma mem_string_iff: "c \<in> set s \<longleftrightarrow> (of_char c :: nat) \<in> set (map of_char s)"
proof -
  have "inj (of_char :: char \<Rightarrow> nat)" by (rule injI) simp
  then show ?thesis by (simp add: inj_image_mem_iff)
qed

lemma byte_range_digits:
  "(48 \<le> n \<and> n \<le> 57) \<longleftrightarrow> (n :: nat) \<in> set (map of_char ''0123456789'')"
  by (simp del: One_nat_def) arith

lemma byte_range_lower:
  "(97 \<le> n \<and> n \<le> 122) \<longleftrightarrow> (n :: nat) \<in> set (map of_char ''abcdefghijklmnopqrstuvwxyz'')"
  by (simp del: One_nat_def) arith

lemma allowedByte_set:
  "allowedByte c \<longleftrightarrow> c \<in> set ''0123456789abcdefghijklmnopqrstuvwxyz.''"
proof -
  have dot: "c = CHR ''.'' \<longleftrightarrow> (of_char c :: nat) = 46"
    using of_char_eq_iff [of c "CHR ''.''", where ?'a = nat] by simp
  have "allowedByte c \<longleftrightarrow>
      (of_char c :: nat) \<in> set (map of_char ''0123456789'')
      \<or> (of_char c :: nat) \<in> set (map of_char ''abcdefghijklmnopqrstuvwxyz'')
      \<or> (of_char c :: nat) = 46"
    unfolding allowedByte_def dot
    by (simp only: byte_range_digits [symmetric] byte_range_lower [symmetric]) simp
  also have "\<dots> \<longleftrightarrow> c \<in> set ''0123456789abcdefghijklmnopqrstuvwxyz.''"
    by (subst mem_string_iff) auto
  finally show ?thesis .
qed

text \<open>The loop keeps the first two bytes and the longest allowed run after them.\<close>

lemma keepLoop_eq:
  "keepLoop idx cs out = out @ take (2 - idx) cs @ takeWhile allowedByte (drop (2 - idx) cs)"
proof (induction cs arbitrary: idx out)
  case Nil
  then show ?case by simp
next
  case (Cons c cs)
  show ?case
  proof (cases "idx < 2")
    case True
    then have "2 - idx = Suc (2 - Suc idx)" by simp
    with True Cons show ?thesis by simp
  next
    case False
    with Cons show ?thesis by simp
  qed
qed

lemma keepLoop_prefixed:
  assumes "prefix ''go'' p"
  shows "keepLoop 0 p [] = ''go'' @ takeWhile allowedByte (drop 2 p)"
proof -
  from assms obtain r where "p = ''go'' @ r" by (auto simp: prefix_def)
  then show ?thesis by (simp add: keepLoop_eq)
qed

lemma cleanVersionInput_shape:
  "cleanVersionInput x = [] \<and> TrimSpace x = []
   \<or> (\<exists>p. TrimSpace x \<noteq> [] \<and> cleanVersionInput x = ''go'' @ takeWhile allowedByte p)"
proof (cases "TrimSpace x = []")
  case True
  then show ?thesis by (simp add: cleanVersionInput_def)
next
  case False
  define token where
    "token = (if length (Fields (TrimSpace x)) > 0 then Fields (TrimSpace x) ! 0 else TrimSpace x)"
  define p where "p = (if \<not> HasPrefix token ''go'' then ''go'' @ token else token)"
  have "prefix ''go'' p" by (simp add: p_def HasPrefix_prefix)
  then have "keepLoop 0 p [] = ''go'' @ takeWhile allowedByte (drop 2 p)"
    by (rule keepLoop_prefixed)
  moreover have "cleanVersionInput x = keepLoop 0 p []"
    using False by (simp add: cleanVersionInput_def Let_def p_def token_def)
  ultimately show ?thesis using False by auto
qed

lemma clean_plain: "set (cleanVersionInput x) \<inter> spaceBytes = {}"
proof -
  have go: "set ''go'' \<inter> spaceBytes = {}" by (auto simp: spaceBytes_def white_space_def)
  have "c \<notin> spaceBytes" if "c \<in> set (takeWhile allowedByte p)" for c p
  proof -
    from that have "allowedByte c" by (rule set_takeWhileD [THEN conjunct2])
    then show ?thesis unfolding allowedByte_set by (rule allowed_not_space)
  qed
  then have tw: "set (takeWhile allowedByte p) \<inter> spaceBytes = {}" for p by blast
  from cleanVersionInput_shape [of x] show ?thesis
  proof
    assume "cleanVersionInput x = [] \<and> TrimSpace x = []"
    then show ?thesis by simp
  next
    assume "\<exists>p. TrimSpace x \<noteq> [] \<and> cleanVersionInput x = ''go'' @ takeWhile allowedByte p"
    then obtain p where "cleanVersionInput x = ''go'' @ takeWhile allowedByte p" by blast
    then have "set (cleanVersionInput x) = set ''go'' \<union> set (takeWhile allowedByte p)"
      by (simp only: set_append)
    with go tw [of p] show ?thesis by blast
  qed
qed

lemma clean_long_prefix:
  "length (cleanVersionInput t) > 2 \<Longrightarrow> HasPrefix (cleanVersionInput t) ''go''"
  using cleanVersionInput_shape [of t] by (auto simp: HasPrefix_prefix)

text \<open>
  C1 (as amended). An input that is empty or all white space is returned as the empty string,
  which has no prefix. For every other input the result begins with the two bytes \<open>go\<close>, and
  every byte after them is an ASCII digit, a lowercase ASCII letter or a dot.
\<close>

theorem cleanVersionInput_wellformed:
  "(TrimSpace x = [] \<longrightarrow> cleanVersionInput x = [])
   \<and> (TrimSpace x \<noteq> [] \<longrightarrow>
        take 2 (cleanVersionInput x) = ''go''
        \<and> (\<forall>c \<in> set (drop 2 (cleanVersionInput x)).
              c \<in> set ''0123456789abcdefghijklmnopqrstuvwxyz.''))"
proof (cases "TrimSpace x = []")
  case True
  then show ?thesis by (simp add: cleanVersionInput_def)
next
  case False
  with cleanVersionInput_shape [of x] obtain p
    where y: "cleanVersionInput x = ''go'' @ takeWhile allowedByte p" by auto
  have "allowedByte c" if "c \<in> set (takeWhile allowedByte p)" for c
    using that by (rule set_takeWhileD [THEN conjunct2])
  then have "\<forall>c \<in> set (drop 2 (cleanVersionInput x)).
      c \<in> set ''0123456789abcdefghijklmnopqrstuvwxyz.''"
    unfolding y allowedByte_set by simp
  moreover have "take 2 (cleanVersionInput x) = ''go''" unfolding y by simp
  ultimately show ?thesis using False by blast
qed

theorem cleanVersionInput_wellformed_witness:
  "TrimSpace ''   '' = [] \<and> cleanVersionInput ''   '' = []
   \<and> TrimSpace ''1.25.1!'' \<noteq> []
   \<and> take 2 (cleanVersionInput ''1.25.1!'') = ''go''
   \<and> set (drop 2 (cleanVersionInput ''1.25.1!''))
        \<subseteq> set ''0123456789abcdefghijklmnopqrstuvwxyz.''"
proof -
  have blank: "TrimSpace ''   '' = []" by code_simp
  have token: "TrimSpace ''1.25.1!'' \<noteq> []" by code_simp
  show ?thesis
    using blank token cleanVersionInput_wellformed [of "''   ''"]
      cleanVersionInput_wellformed [of "''1.25.1!''"]
    by blast
qed

text \<open>
  C1 as stated fails: for the empty input, and for an input of white space only, the result is
  the empty string, which does not begin with \<open>go\<close>.
\<close>

theorem cleanVersionInput_blank_counterexample:
  "cleanVersionInput [] = [] \<and> \<not> prefix ''go'' (cleanVersionInput [])
   \<and> cleanVersionInput ''   '' = [] \<and> \<not> prefix ''go'' (cleanVersionInput ''   '')"
  by code_simp

text \<open>
  C7. The sanitizer computes the reference algorithm of the specification on every input:
  trim, first token, prefix, then the prefix followed by the longest run of allowed bytes.
\<close>

theorem cleanVersionInput_refines_normalize: "cleanVersionInput x = normalize_spec x"
proof (cases "TrimSpace x = []")
  case True
  then show ?thesis by (simp add: cleanVersionInput_def normalize_spec_def)
next
  case False
  then obtain rest where f: "Fields (TrimSpace x) = firstToken (TrimSpace x) # rest"
    using Fields_trimmed by blast
  define tok where "tok = firstToken (TrimSpace x)"
  define p where "p = (if prefix ''go'' tok then tok else ''go'' @ tok)"
  have allowed: "allowedByte =
      (\<lambda>c. c \<in> set ''0123456789'' \<union> set ''abcdefghijklmnopqrstuvwxyz'' \<union> {CHR ''.''})"
  proof
    fix c
    have "set ''0123456789'' \<union> set ''abcdefghijklmnopqrstuvwxyz'' \<union> {CHR ''.''}
        = set (''0123456789'' @ ''abcdefghijklmnopqrstuvwxyz'' @ ''.'')"
      unfolding set_append by simp
    then show "allowedByte c
        = (c \<in> set ''0123456789'' \<union> set ''abcdefghijklmnopqrstuvwxyz'' \<union> {CHR ''.''})"
      unfolding allowedByte_set by simp
  qed
  have "cleanVersionInput x = keepLoop 0 p []"
    using False f by (simp add: cleanVersionInput_def HasPrefix_prefix p_def tok_def)
  also have "\<dots> = take 2 p @ takeWhile allowedByte (drop 2 p)"
    by (simp add: keepLoop_eq)
  also have "\<dots> = normalize_spec x"
    using False unfolding normalize_spec_def allowed by (simp add: Let_def p_def tok_def)
  finally show ?thesis .
qed

theorem cleanVersionInput_refines_normalize_witness:
  "cleanVersionInput ''  1.25.1rc1! time 2025-08-27T15:49:40Z''
     = normalize_spec ''  1.25.1rc1! time 2025-08-27T15:49:40Z''
   \<and> normalize_spec ''  1.25.1rc1! time 2025-08-27T15:49:40Z'' = ''go1.25.1rc1''"
proof -
  have "normalize_spec ''  1.25.1rc1! time 2025-08-27T15:49:40Z'' = ''go1.25.1rc1''"
    by code_simp
  then show ?thesis
    using cleanVersionInput_refines_normalize [of "''  1.25.1rc1! time 2025-08-27T15:49:40Z''"]
    by simp
qed

text \<open>C8. The sanitizer is idempotent: applying it to its own result changes nothing.\<close>

theorem cleanVersionInput_idempotent:
  "cleanVersionInput (cleanVersionInput x) = cleanVersionInput x"
proof (cases "TrimSpace x = []")
  case True
  then have "cleanVersionInput x = []" by (simp add: cleanVersionInput_def)
  then show ?thesis by (simp add: cleanVersionInput_def TrimSpace_def TrimRight.simps)
next
  case False
  with cleanVersionInput_shape [of x] obtain p
    where y: "cleanVersionInput x = ''go'' @ takeWhile allowedByte p" by auto
  define y where "y = cleanVersionInput x"
  have plain: "set y \<inter> spaceBytes = {}" unfolding y_def by (rule clean_plain)
  have ne: "y \<noteq> []" using y by (simp add: y_def)
  have t: "TrimSpace y = y" using plain by (rule plain_TrimSpace)
  have f: "Fields y = [y]" using plain ne by (simp add: Fields_def plain_FieldsFunc)
  have hp: "HasPrefix y ''go''" using y by (simp add: y_def HasPrefix_prefix)
  have "cleanVersionInput y = keepLoop 0 y []"
    using ne t f hp by (simp add: cleanVersionInput_def)
  also have "\<dots> = ''go'' @ takeWhile allowedByte (drop 2 y)"
    using hp by (simp add: keepLoop_prefixed HasPrefix_prefix)
  also have "\<dots> = y" using y by (simp add: y_def)
  finally show ?thesis by (simp add: y_def)
qed

theorem cleanVersionInput_idempotent_witness:
  "cleanVersionInput ''1.25.1! x'' = ''go1.25.1''
   \<and> cleanVersionInput (cleanVersionInput ''1.25.1! x'') = ''go1.25.1''"
proof -
  have "cleanVersionInput ''1.25.1! x'' = ''go1.25.1''" by code_simp
  then show ?thesis using cleanVersionInput_idempotent [of "''1.25.1! x''"] by simp
qed

section \<open>The version probe's parser\<close>

lemma scanTokens_find:
  "scanTokens output toks =
     (case find (\<lambda>t. prefix ''go'' t \<and> length (cleanVersionInput t) > 2) toks of
        Some t \<Rightarrow> Inr (cleanVersionInput t) | None \<Rightarrow> Inl (UnableToParse output))"
  by (induction toks) (auto simp: HasPrefix_prefix [symmetric] Let_def clean_long_prefix)

text \<open>
  C4 (as amended). With \<open>fields\<close> the white-space separated fields of the output: when the
  third field exists and begins with \<open>go\<close>, the parser returns it normalized. Otherwise it
  returns, normalized, the first field that begins with \<open>go\<close> and whose normalized form is
  longer than the bare prefix. It fails exactly when neither selects a field. The typical
  output gives \<open>go1.22.6\<close>, and text without a version gives the error.
\<close>

theorem parseGoVersionOutput_selection:
  "(let fields = Fields (TrimSpace output) in
     (length fields \<ge> 3 \<and> prefix ''go'' (fields ! 2) \<longrightarrow>
        parseGoVersionOutput output = Inr (cleanVersionInput (fields ! 2)))
   \<and> (\<not> (length fields \<ge> 3 \<and> prefix ''go'' (fields ! 2)) \<longrightarrow>
        parseGoVersionOutput output =
          (case find (\<lambda>t. prefix ''go'' t \<and> length (cleanVersionInput t) > 2) fields of
             Some t \<Rightarrow> Inr (cleanVersionInput t) | None \<Rightarrow> Inl (UnableToParse output)))
   \<and> ((\<exists>e. parseGoVersionOutput output = Inl e) \<longleftrightarrow>
        \<not> (length fields \<ge> 3 \<and> prefix ''go'' (fields ! 2))
        \<and> (\<forall>t \<in> set fields. \<not> (prefix ''go'' t \<and> length (cleanVersionInput t) > 2))))
   \<and> parseGoVersionOutput ''go version go1.22.6 linux/amd64'' = Inr ''go1.22.6''
   \<and> parseGoVersionOutput ''totally unrelated output''
        = Inl (UnableToParse ''totally unrelated output'')"
proof -
  define toks where "toks = Fields (TrimSpace output)"
  define P where "P = (length toks \<ge> 3 \<and> prefix ''go'' (toks ! 2))"
  have a: "P \<longrightarrow> parseGoVersionOutput output = Inr (cleanVersionInput (toks ! 2))"
    by (simp add: parseGoVersionOutput_def toks_def P_def HasPrefix_prefix)
  have b: "\<not> P \<longrightarrow> parseGoVersionOutput output =
          (case find (\<lambda>t. prefix ''go'' t \<and> length (cleanVersionInput t) > 2) toks of
             Some t \<Rightarrow> Inr (cleanVersionInput t) | None \<Rightarrow> Inl (UnableToParse output))"
    by (simp add: parseGoVersionOutput_def toks_def [symmetric] P_def HasPrefix_prefix
        scanTokens_find)
  have c: "(\<exists>e. parseGoVersionOutput output = Inl e) \<longleftrightarrow>
        \<not> P \<and> (\<forall>t \<in> set toks. \<not> (prefix ''go'' t \<and> length (cleanVersionInput t) > 2))"
  proof (cases P)
    case True
    with a show ?thesis by simp
  next
    case False
    with b show ?thesis by (auto simp: find_None_iff split: option.splits dest: find_Some_in)
  qed
  have d: "parseGoVersionOutput ''go version go1.22.6 linux/amd64'' = Inr ''go1.22.6''"
    by code_simp
  have e: "parseGoVersionOutput ''totally unrelated output''
        = Inl (UnableToParse ''totally unrelated output'')"
    by code_simp
  from a b c d e show ?thesis
    unfolding Let_def toks_def [symmetric] P_def [symmetric] by blast
qed

theorem parseGoVersionOutput_selection_witness:
  "(length (Fields (TrimSpace ''go version go1.22.6 linux/amd64'')) \<ge> 3
      \<and> prefix ''go'' (Fields (TrimSpace ''go version go1.22.6 linux/amd64'') ! 2))
   \<and> parseGoVersionOutput ''go version go1.22.6 linux/amd64''
        = Inr (cleanVersionInput (Fields (TrimSpace ''go version go1.22.6 linux/amd64'') ! 2))
   \<and> \<not> (length (Fields (TrimSpace ''go! go1.20.5'')) \<ge> 3
          \<and> prefix ''go'' (Fields (TrimSpace ''go! go1.20.5'') ! 2))
   \<and> parseGoVersionOutput ''go! go1.20.5'' = Inr ''go1.20.5''
   \<and> (\<exists>e. parseGoVersionOutput ''go'' = Inl e)"
proof -
  have third: "length (Fields (TrimSpace ''go version go1.22.6 linux/amd64'')) \<ge> 3
      \<and> prefix ''go'' (Fields (TrimSpace ''go version go1.22.6 linux/amd64'') ! 2)"
    by code_simp
  have nothird: "\<not> (length (Fields (TrimSpace ''go! go1.20.5'')) \<ge> 3
          \<and> prefix ''go'' (Fields (TrimSpace ''go! go1.20.5'') ! 2))"
    by code_simp
  have found: "(case find (\<lambda>t. prefix ''go'' t \<and> length (cleanVersionInput t) > 2)
          (Fields (TrimSpace ''go! go1.20.5'')) of
        Some t \<Rightarrow> Inr (cleanVersionInput t) | None \<Rightarrow> Inl (UnableToParse ''go! go1.20.5''))
      = Inr ''go1.20.5''"
    by code_simp
  have a: "parseGoVersionOutput ''go version go1.22.6 linux/amd64''
        = Inr (cleanVersionInput (Fields (TrimSpace ''go version go1.22.6 linux/amd64'') ! 2))"
    by (rule parseGoVersionOutput_selection [of "''go version go1.22.6 linux/amd64''",
          THEN conjunct1, unfolded Let_def, THEN conjunct1, THEN mp, OF third])
  have b: "parseGoVersionOutput ''go! go1.20.5'' =
      (case find (\<lambda>t. prefix ''go'' t \<and> length (cleanVersionInput t) > 2)
          (Fields (TrimSpace ''go! go1.20.5'')) of
        Some t \<Rightarrow> Inr (cleanVersionInput t) | None \<Rightarrow> Inl (UnableToParse ''go! go1.20.5''))"
    by (rule parseGoVersionOutput_selection [of "''go! go1.20.5''",
          THEN conjunct1, unfolded Let_def, THEN conjunct2, THEN conjunct1, THEN mp, OF nothird])
  note b' = b [unfolded found]
  from third have "length (Fields (TrimSpace ''go version go1.22.6 linux/amd64'')) \<ge> 3"
    and "prefix ''go'' (Fields (TrimSpace ''go version go1.22.6 linux/amd64'') ! 2)"
    by (rule conjunct1, rule conjunct2)
  moreover have "\<not> (length (Fields (TrimSpace ''go'')) \<ge> 3
          \<and> prefix ''go'' (Fields (TrimSpace ''go'') ! 2))
      \<and> (\<forall>t \<in> set (Fields (TrimSpace ''go'')).
            \<not> (prefix ''go'' t \<and> length (cleanVersionInput t) > 2))"
    by code_simp
  then have "\<exists>e. parseGoVersionOutput ''go'' = Inl e"
    by (rule parseGoVersionOutput_selection [of "''go''",
          THEN conjunct1, unfolded Let_def, THEN conjunct2, THEN conjunct2, THEN iffD2])
  ultimately show ?thesis using nothird a b' by (intro conjI)
qed

text \<open>
  C4 as stated fails. The output \<open>go\<close> has no third field and its first field begins with
  \<open>go\<close>, yet the parser fails instead of returning the normalized field \<open>go\<close>; and for
  \<open>go! go1.2\<close> it returns the second field, not the first one that begins with \<open>go\<close>.
\<close>

theorem parseGoVersionOutput_first_field_counterexample:
  "\<not> (let fields = Fields (TrimSpace ''go'') in
       \<not> (length fields \<ge> 3 \<and> prefix ''go'' (fields ! 2)) \<longrightarrow>
       parseGoVersionOutput ''go'' =
         (case find (\<lambda>t. prefix ''go'' t) fields of
            Some t \<Rightarrow> Inr (cleanVersionInput t) | None \<Rightarrow> Inl (UnableToParse ''go'')))
   \<and> \<not> (let fields = Fields (TrimSpace ''go! go1.2'') in
       \<not> (length fields \<ge> 3 \<and> prefix ''go'' (fields ! 2)) \<longrightarrow>
       parseGoVersionOutput ''go! go1.2'' =
         (case find (\<lambda>t. prefix ''go'' t) fields of
            Some t \<Rightarrow> Inr (cleanVersionInput t) | None \<Rightarrow> Inl (UnableToParse ''go! go1.2'')))"
  by code_simp

section \<open>The idempotency check of the profile writer\<close>

lemma profileLoop_iff:
  "profileLoop ls target \<longleftrightarrow>
     (\<exists>line \<in> set ls. TrimSpace line = target
        \<or> (sublist ''/usr/local/go/bin'' (TrimSpace line)
            \<and> sublist ''export PATH'' (TrimSpace line)))"
  by (induction ls) (auto simp: Let_def Contains_sublist)

text \<open>
  The pieces that \<open>SplitSeq\<close> yields are the lines: joined by line feeds they give the
  content back, and none of them contains a line feed.
\<close>

lemma SplitSeqFrom_join:
  "concat (map (\<lambda>l. l @ [CHR 0x0A]) (SplitSeqFrom cur s)) = cur @ s @ [CHR 0x0A]"
  by (induction s arbitrary: cur) auto

lemma SplitSeqFrom_no_newline:
  "CHR 0x0A \<notin> set cur \<Longrightarrow> l \<in> set (SplitSeqFrom cur s) \<Longrightarrow> CHR 0x0A \<notin> set l"
proof (induction s arbitrary: cur)
  case Nil
  then show ?case by simp
next
  case (Cons c cs)
  show ?case
  proof (cases "c = CHR 0x0A")
    case True
    with Cons.prems have "l = cur \<or> l \<in> set (SplitSeqFrom [] cs)" by simp
    then show ?thesis using Cons.prems(1) Cons.IH [of "[]"] by auto
  next
    case False
    with Cons.prems have "l \<in> set (SplitSeqFrom (cur @ [c]) cs)" by simp
    moreover from False Cons.prems(1) have "CHR 0x0A \<notin> set (cur @ [c])" by simp
    ultimately show ?thesis by (rule Cons.IH [rotated])
  qed
qed

text \<open>
  C9. \<open>containsProfileLine\<close> is true exactly when some line of the content, trimmed, equals
  the target or contains both \<open>/usr/local/go/bin\<close> and \<open>export PATH\<close>.
\<close>

theorem containsProfileLine_iff:
  "containsProfileLine content target \<longleftrightarrow>
     (\<exists>line \<in> set (SplitSeq_newline content).
        TrimSpace line = target
        \<or> (sublist ''/usr/local/go/bin'' (TrimSpace line)
            \<and> sublist ''export PATH'' (TrimSpace line)))"
  unfolding containsProfileLine_def by (rule profileLoop_iff)

theorem containsProfileLine_iff_witness:
  "containsProfileLine (''# comment'' @ [CHR 0x0A] @ ''  export PATH=/usr/local/go/bin:$PATH'')
     ''export PATH=$PATH:/usr/local/go/bin''
   \<and> (\<exists>line \<in> set (SplitSeq_newline
          (''# comment'' @ [CHR 0x0A] @ ''  export PATH=/usr/local/go/bin:$PATH'')).
        TrimSpace line = ''export PATH=$PATH:/usr/local/go/bin''
        \<or> (sublist ''/usr/local/go/bin'' (TrimSpace line)
            \<and> sublist ''export PATH'' (TrimSpace line)))"
proof -
  have "containsProfileLine
      (''# comment'' @ [CHR 0x0A] @ ''  export PATH=/usr/local/go/bin:$PATH'')
      ''export PATH=$PATH:/usr/local/go/bin''"
    by code_simp
  then show ?thesis
    using containsProfileLine_iff
      [of "''# comment'' @ [CHR 0x0A] @ ''  export PATH=/usr/local/go/bin:$PATH''"
          "''export PATH=$PATH:/usr/local/go/bin''"]
    by blast
qed

section \<open>The profile writer\<close>

subsection \<open>The appended block contains the line\<close>

lemma SplitSeqFrom_after_newline:
  "set (SplitSeqFrom [] b) \<subseteq> set (SplitSeqFrom cur (a @ CHR 0x0A # b))"
  by (induction a arbitrary: cur) auto

lemma profileLine_in_block:
  "profileLine \<in> set (SplitSeq_newline (data @ profileBlock profileLine))"
proof -
  have "profileLine \<in> set (SplitSeqFrom [] (profileLine @ [CHR 0x0A]))"
    by (simp add: profileLine_def)
  also have "\<dots> \<subseteq> set (SplitSeqFrom []
      (''# Added by go-updater to expose Go binaries'' @ CHR 0x0A # profileLine @ [CHR 0x0A]))"
    by (rule SplitSeqFrom_after_newline)
  also have "\<dots> \<subseteq> set (SplitSeqFrom [] (data @ CHR 0x0A #
      ''# Added by go-updater to expose Go binaries'' @ CHR 0x0A # profileLine @ [CHR 0x0A]))"
    by (rule SplitSeqFrom_after_newline)
  finally show ?thesis by (simp add: SplitSeq_newline_def profileBlock_def)
qed

lemma TrimSpace_profileLine: "TrimSpace profileLine = profileLine"
  by code_simp

lemma block_contains_line: "containsProfileLine (data @ profileBlock profileLine) profileLine"
  unfolding containsProfileLine_def profileLoop_iff
  using profileLine_in_block [of data] TrimSpace_profileLine by blast

lemma empty_lacks_line: "\<not> containsProfileLine [] profileLine"
  by code_simp

subsection \<open>The two loops\<close>

lemma alreadyPresent_files:
  "files w = files w' \<Longrightarrow>
     alreadyPresent h w home line cs = alreadyPresent h w' home line cs"
  by (induction cs) (auto simp: os_ReadFile_def Let_def split: option.splits node.splits)

lemma alreadyPresent_found:
  assumes "name \<in> set cs"
    and "files w (Join h home name) = Some (File data True wr)"
    and "containsProfileLine data line"
  shows "alreadyPresent h w home line cs \<noteq> None"
  using assms by (induction cs) (auto simp: os_ReadFile_def Let_def split: sum.splits)

lemma alreadyPresent_none:
  assumes "\<forall>name \<in> set cs. files w (Join h home name) = None
      \<or> files w (Join h home name) = Some (File [] True True)"
  shows "alreadyPresent h w home profileLine cs = None"
  using assms by (induction cs) (auto simp: os_ReadFile_def Let_def empty_lacks_line)

lemma appendBlock_cases:
  assumes "appendBlock h path line w = (r, w')"
  shows "w' = w
    \<or> (\<exists>data rd wr. files w path = Some (File data rd wr)
          \<and> files w' = (files w)(path \<mapsto> File (data @ profileBlock line) rd wr))"
  using assms
  by (auto simp: appendBlock_def writeEnd_def log_def split: if_splits option.splits node.splits)

lemma appendToFirstExisting_cases:
  assumes "appendToFirstExisting h w home line cs = Some (r, w')"
  shows "w' = w
    \<or> (\<exists>name \<in> set cs. \<exists>data rd. files w (Join h home name) = Some (File data rd True)
          \<and> files w' = (files w)(Join h home name \<mapsto> File (data @ profileBlock line) rd True))"
  using assms
proof (induction cs)
  case Nil
  then show ?case by simp
next
  case (Cons name rest)
  show ?case
  proof (cases "os_Stat w (Join h home name)")
    case False
    with Cons show ?thesis by auto
  next
    case True
    show ?thesis
    proof (cases "os_OpenFile_append w (Join h home name)")
      case (Some err)
      with True Cons.prems show ?thesis by simp
    next
      case None
      then obtain data rd where f: "files w (Join h home name) = Some (File data rd True)"
        by (auto simp: os_OpenFile_append_def split: option.splits node.splits if_splits)
      from None True Cons.prems have "appendBlock h (Join h home name) line w = (r, w')"
        by simp
      from appendBlock_cases [OF this] f show ?thesis by auto
    qed
  qed
qed

lemma appendToFirstExisting_None:
  "appendToFirstExisting h w home line cs = None \<Longrightarrow>
     \<forall>name \<in> set cs. files w (Join h home name) = None"
  by (induction cs) (auto simp: os_Stat_def Let_def split: if_splits)

lemma candidates_nonempty: "hd (candidates h) \<in> set (candidates h)"
  by (simp add: candidates_def)

subsection \<open>What one call does to the files\<close>

lemma ensureUserPath_present:
  assumes "UserHomeDir h = Some home"
    and "alreadyPresent h w home profileLine (candidates h) = Some p"
  shows "ensureUserPath h w
    = (None, log (''User PATH already contains /usr/local/go/bin in '' @ p) w)"
  using assms by (simp add: ensureUserPath_def)

lemma ensureUserPath_outcome:
  "snd (ensureUserPath h w) = w
   \<or> (\<exists>home p. UserHomeDir h = Some home
         \<and> alreadyPresent h w home profileLine (candidates h) = Some p)
   \<or> (\<exists>home name data rd. UserHomeDir h = Some home \<and> name \<in> set (candidates h)
         \<and> files w (Join h home name) = Some (File data rd True)
         \<and> files (snd (ensureUserPath h w))
             = (files w)(Join h home name \<mapsto> File (data @ profileBlock profileLine) rd True))
   \<or> (\<exists>home. UserHomeDir h = Some home
         \<and> files (snd (ensureUserPath h w))
             = (files w)(Join h home (hd (candidates h)) \<mapsto> File (profileBlock profileLine) True True))
   \<or> (\<exists>home. UserHomeDir h = Some home
         \<and> (\<forall>name \<in> set (candidates h). files w (Join h home name) = None)
         \<and> writeFails h (Join h home (hd (candidates h)))
         \<and> snd (ensureUserPath h w)
             = w\<lparr>files := (files w)(Join h home (hd (candidates h)) \<mapsto> File [] True True)\<rparr>)"
proof (cases "UserHomeDir h")
  case None
  then show ?thesis by (simp add: ensureUserPath_def)
next
  case (Some home)
  note home = this
  show ?thesis
  proof (cases "alreadyPresent h w home profileLine (candidates h)")
    case (Some p)
    with home show ?thesis by blast
  next
    case None
    note absent = this
    show ?thesis
    proof (cases "appendToFirstExisting h w home profileLine (candidates h)")
      case (Some res)
      obtain r w' where res: "res = (r, w')" by (cases res)
      from home absent Some res have e: "ensureUserPath h w = (r, w')"
        by (simp add: ensureUserPath_def)
      from appendToFirstExisting_cases [OF Some [unfolded res]] show ?thesis
        using home e by auto
    next
      case None
      note nofile = appendToFirstExisting_None [OF None]
      define target where "target = Join h home (hd (candidates h))"
      from nofile candidates_nonempty have t: "files w target = None"
        unfolding target_def by blast
      have e: "ensureUserPath h w =
          (case os_OpenFile_create_append h w target of
             (Some err, w1) \<Rightarrow> (Some err, w1)
           | (None, w1) \<Rightarrow> appendBlock h target profileLine w1)"
        using home absent None unfolding target_def by (simp add: ensureUserPath_def Let_def)
      show ?thesis
      proof (cases "creatable h target")
        case False
        with t e have "snd (ensureUserPath h w) = w"
          by (simp add: os_OpenFile_create_append_def)
        then show ?thesis by blast
      next
        case True
        define w1 where "w1 = w\<lparr>files := (files w)(target \<mapsto> File [] True True)\<rparr>"
        from True t e have e1: "ensureUserPath h w = appendBlock h target profileLine w1"
          by (simp add: os_OpenFile_create_append_def w1_def)
        show ?thesis
        proof (cases "writeFails h target")
          case True
          then have "snd (ensureUserPath h w) = w1"
            by (simp add: e1 appendBlock_def writeEnd_def)
          with True nofile home show ?thesis unfolding w1_def target_def by blast
        next
          case False
          then have "files (snd (ensureUserPath h w))
              = (files w)(target \<mapsto> File (profileBlock profileLine) True True)"
            by (simp add: e1 appendBlock_def writeEnd_def w1_def log_def)
          with home show ?thesis unfolding target_def by blast
        qed
      qed
    qed
  qed
qed

text \<open>A call that finds the line in a candidate it can read writes nothing.\<close>

lemma ensureUserPath_recognized:
  assumes "path \<in> set (profilePaths h)"
    and "files w path = Some (File data True wr)"
    and "containsProfileLine data profileLine"
  shows "fst (ensureUserPath h w) = None \<and> files (snd (ensureUserPath h w)) = files w"
proof -
  from assms(1) obtain home where home: "UserHomeDir h = Some home"
    by (cases "UserHomeDir h") (auto simp: profilePaths_def)
  with assms(1) obtain name where name: "name \<in> set (candidates h)"
    and path: "path = Join h home name"
    by (auto simp: profilePaths_def)
  from name assms(2,3) have "alreadyPresent h w home profileLine (candidates h) \<noteq> None"
    unfolding path by (rule alreadyPresent_found)
  then obtain p where "alreadyPresent h w home profileLine (candidates h) = Some p" by blast
  from ensureUserPath_present [OF home this] show ?thesis by (simp add: log_def)
qed

text \<open>
  Where every candidate that can be written can also be read, on one and the same host, a
  second call changes no file: the repeated append is confined to profiles that cannot be
  read. The condition is sufficient, not necessary.
\<close>

lemma ensureUserPath_second:
  assumes "\<forall>path \<in> set (profilePaths h). \<forall>data r. files w path = Some (File data r True) \<longrightarrow> r"
  shows "files (snd (ensureUserPath h (snd (ensureUserPath h w))))
    = files (snd (ensureUserPath h w))"
proof -
  define w1 where "w1 = snd (ensureUserPath h w)"
  consider (same) "w1 = w"
    | (present) home p where "UserHomeDir h = Some home"
        "alreadyPresent h w home profileLine (candidates h) = Some p"
    | (appended) home name data rd where "UserHomeDir h = Some home" "name \<in> set (candidates h)"
        "files w (Join h home name) = Some (File data rd True)"
        "files w1 = (files w)(Join h home name \<mapsto> File (data @ profileBlock profileLine) rd True)"
    | (created) home where "UserHomeDir h = Some home"
        "files w1 = (files w)(Join h home (hd (candidates h)) \<mapsto> File (profileBlock profileLine) True True)"
    | (stuck) home where "UserHomeDir h = Some home"
        "\<forall>name \<in> set (candidates h). files w (Join h home name) = None"
        "writeFails h (Join h home (hd (candidates h)))"
        "w1 = w\<lparr>files := (files w)(Join h home (hd (candidates h)) \<mapsto> File [] True True)\<rparr>"
    using ensureUserPath_outcome [of h w] unfolding w1_def by blast
  then have "files (snd (ensureUserPath h w1)) = files w1"
  proof cases
    case same
    then show ?thesis by (simp add: w1_def)
  next
    case present
    from ensureUserPath_present [OF present] have "files w1 = files w"
      by (simp add: w1_def log_def)
    then have "alreadyPresent h w1 home profileLine (candidates h) = Some p"
      using present(2) alreadyPresent_files [of w1 w] by simp
    from ensureUserPath_present [OF present(1) this] show ?thesis by (simp add: log_def)
  next
    case appended
    from appended(1,2) have "Join h home name \<in> set (profilePaths h)"
      by (simp add: profilePaths_def)
    with assms appended(3) have rd by blast
    with appended(4) have "files w1 (Join h home name)
        = Some (File (data @ profileBlock profileLine) True True)"
      by simp
    with appended(1,2) show ?thesis
      using ensureUserPath_recognized [of "Join h home name" h w1] block_contains_line
      by (simp add: profilePaths_def)
  next
    case created
    from created(2) have "files w1 (Join h home (hd (candidates h)))
        = Some (File ([] @ profileBlock profileLine) True True)"
      by simp
    with created(1) show ?thesis
      using ensureUserPath_recognized [of "Join h home (hd (candidates h))" h w1]
        block_contains_line [of "[]"] candidates_nonempty [of h]
      by (simp add: profilePaths_def)
  next
    case stuck
    define target where "target = Join h home (hd (candidates h))"
    have absent: "alreadyPresent h w1 home profileLine (candidates h) = None"
      by (rule alreadyPresent_none) (use stuck(2,4) in auto)
    obtain c0 rest where cs: "candidates h = c0 # rest" by (cases "candidates h") (auto simp: candidates_def split: if_splits)
    have "appendToFirstExisting h w1 home profileLine (candidates h)
        = Some (Some (SysError ''write'' target), w1)"
      using stuck(3,4)
      by (simp add: cs target_def os_Stat_def os_OpenFile_append_def appendBlock_def writeEnd_def
          Let_def)
    with absent stuck(1) have "ensureUserPath h w1 = (Some (SysError ''write'' target), w1)"
      by (simp add: ensureUserPath_def)
    then show ?thesis by simp
  qed
  then show ?thesis by (simp add: w1_def)
qed

text \<open>
  C2 fails on a profile that can be written but not read (mode 0200). The claim is that a
  second call appends nothing and that a profile with an equivalent export line is left
  alone. The profile here holds \<open>export PATH=/usr/local/go/bin:$PATH\<close>: when it can be read, the
  call recognizes the line and leaves the file as it is; when it cannot, the read error is
  passed over, the first call appends the block, and the second call appends it once more.
\<close>

theorem ensureUserPath_write_only_appends_twice:
  "files (snd (ensureUserPath linuxHost phrasedProfile)) ''/home/u/.profile''
       = Some (File otherPhrasing True True)
   \<and> files writeOnlyProfile ''/home/u/.profile'' = Some (File otherPhrasing False True)
   \<and> files (snd (ensureUserPath linuxHost writeOnlyProfile)) ''/home/u/.profile''
       = Some (File (otherPhrasing @ profileBlock profileLine) False True)
   \<and> files (snd (ensureUserPath linuxHost (snd (ensureUserPath linuxHost writeOnlyProfile))))
         ''/home/u/.profile''
       = Some (File (otherPhrasing @ profileBlock profileLine @ profileBlock profileLine)
           False True)
   \<and> files (snd (ensureUserPath linuxHost (snd (ensureUserPath linuxHost writeOnlyProfile))))
       \<noteq> files (snd (ensureUserPath linuxHost writeOnlyProfile))"
proof -
  have r: "files (snd (ensureUserPath linuxHost phrasedProfile)) ''/home/u/.profile''
       = Some (File otherPhrasing True True)"
    by code_simp
  have a: "files writeOnlyProfile ''/home/u/.profile'' = Some (File otherPhrasing False True)"
    by code_simp
  have b: "files (snd (ensureUserPath linuxHost writeOnlyProfile)) ''/home/u/.profile''
       = Some (File (otherPhrasing @ profileBlock profileLine) False True)"
    by code_simp
  have c: "files (snd (ensureUserPath linuxHost (snd (ensureUserPath linuxHost writeOnlyProfile))))
         ''/home/u/.profile''
       = Some (File (otherPhrasing @ profileBlock profileLine @ profileBlock profileLine)
           False True)"
    by code_simp
  have "otherPhrasing @ profileBlock profileLine @ profileBlock profileLine
      \<noteq> otherPhrasing @ profileBlock profileLine"
    by (simp add: profileBlock_def)
  with b c have "files (snd (ensureUserPath linuxHost (snd (ensureUserPath linuxHost writeOnlyProfile))))
       ''/home/u/.profile''
     \<noteq> files (snd (ensureUserPath linuxHost writeOnlyProfile)) ''/home/u/.profile''"
    by simp
  then have d: "files (snd (ensureUserPath linuxHost (snd (ensureUserPath linuxHost writeOnlyProfile))))
       \<noteq> files (snd (ensureUserPath linuxHost writeOnlyProfile))"
    by metis
  from r a b c d show ?thesis by (intro conjI)
qed

section \<open>The system-wide entry\<close>

text \<open>Once the content is staged, every way out removes the temporary file.\<close>

lemma runAsRoot_cases:
  obtains err w' where "runAsRoot h cmd args w = (Some err, w')"
  | w' where "runAsRoot h cmd args w = (None, w')"
  by (cases "runAsRoot h cmd args w") (metis not_Some_eq)

lemma stageAndInstall_removes:
  assumes "os_CreateTemp h w (tempPattern s) = (Inr tmpPath, w1)"
    and "\<not> writeFails h tmpPath"
  shows "files (snd (stageAndInstall h s w)) tmpPath = None"
proof -
  from assms(1) have f: "files w1 tmpPath = Some (File [] True True)"
    by (auto simp: os_CreateTemp_def Let_def split: if_splits)
  define w2 where
    "w2 = w1\<lparr>files := (files w1)(tmpPath \<mapsto> File ([] @ stagedContent s) True True)\<rparr>"
  from assms(2) f have wr: "writeEnd h tmpPath (stagedContent s) w1 = (None, w2)"
    by (simp add: writeEnd_def w2_def)
  show ?thesis
  proof (cases rule: runAsRoot_cases [of h "''install''" "[''-m'', ''0644'', tmpPath, dropIn s]" w2])
    case (2 w3)
    with assms(1) wr show ?thesis by (simp add: stageAndInstall_def os_Remove_def log_def)
  next
    case (1 err1 w3)
    show ?thesis
      by (cases rule: runAsRoot_cases [of h "''sh''" "[''-c'', fallbackCommand s]" w3])
        (use assms(1) wr 1 in \<open>simp_all add: stageAndInstall_def os_Remove_def log_def\<close>)
  qed
qed

text \<open>
  C5 fails on one way out: when the temporary file has been created and writing the content
  to it fails, \<open>ensureSystemPath\<close> returns that error and the file, still empty, stays.
\<close>

theorem ensureSystemPath_write_failure_leaves_temp:
  assumes "os_CreateTemp h w
      (tempPattern (if GOOS h = ''darwin'' then darwinStaging else linuxStaging))
      = (Inr tmpPath, w1)"
    and "writeFails h tmpPath"
  shows "ensureSystemPath h w = (Some (SysError ''write'' tmpPath), w1)
    \<and> files w1 tmpPath = Some (File [] True True)"
proof -
  from assms(1) have f: "files w1 tmpPath = Some (File [] True True)"
    by (auto simp: os_CreateTemp_def Let_def split: if_splits)
  from assms(2) have wr: "writeEnd h tmpPath content w1 = (Some (SysError ''write'' tmpPath), w1)"
    for content by (simp add: writeEnd_def)
  from assms(1) wr have "ensureSystemPath h w = (Some (SysError ''write'' tmpPath), w1)"
    by (simp add: ensureSystemPath_def stageAndInstall_def split: if_splits)
  with f show ?thesis by simp
qed

theorem ensureSystemPath_write_failure_leaves_temp_witness:
  "files emptyWorld ''/tmp/golang-path-2091882927.sh'' = None
   \<and> fst (ensureSystemPath fullDisk emptyWorld)
       = Some (SysError ''write'' ''/tmp/golang-path-2091882927.sh'')
   \<and> files (snd (ensureSystemPath fullDisk emptyWorld)) ''/tmp/golang-path-2091882927.sh''
       = Some (File [] True True)"
proof -
  define w1 where
    "w1 = emptyWorld\<lparr>files := (files emptyWorld)(''/tmp/golang-path-2091882927.sh'' \<mapsto> File [] True True)\<rparr>"
  have created: "os_CreateTemp fullDisk emptyWorld
      (tempPattern (if GOOS fullDisk = ''darwin'' then darwinStaging else linuxStaging))
      = (Inr ''/tmp/golang-path-2091882927.sh'', w1)"
    by (simp add: os_CreateTemp_def fullDisk_def linuxHost_def linuxStaging_def plainJoin_def
        emptyWorld_def w1_def Let_def)
  have fails: "writeFails fullDisk ''/tmp/golang-path-2091882927.sh''"
    by (simp add: fullDisk_def)
  have absent: "files emptyWorld ''/tmp/golang-path-2091882927.sh'' = None"
    by (simp add: emptyWorld_def)
  from ensureSystemPath_write_failure_leaves_temp [OF created fails] absent
  show ?thesis by simp
qed

section \<open>The dry run\<close>

text \<open>
  C3 fails: \<open>main\<close> makes the download directory before it looks at the dry-run flag. With
  \<open>--dry-run --version go1.25.1 --download-dir /tmp/go-dl\<close> and no such directory, the run
  prints the plan, exits with status 0, and has created the directory.
\<close>

theorem main_dry_run_creates_download_dir:
  "dryRunFlag dryRun
   \<and> files emptyWorld ''/tmp/go-dl'' = None
   \<and> (case main linuxHost dryRun emptyWorld of
         (status, w) \<Rightarrow>
           status = 0
           \<and> Text ''Plan (dry-run):'' \<in> set (stdout w)
           \<and> files w ''/tmp/go-dl'' = Some Dir)"
  by code_simp

section \<open>The order of the steps of main\<close>

subsection \<open>What each step leaves alone\<close>

lemma exec_keeps:
  "requests (snd (exec h argv w)) = requests w"
  "stderr (snd (exec h argv w)) = stderr w"
  by (simp_all add: exec_def split: prod.splits)

lemma probe_keeps:
  "requests (snd (probe h path w)) = requests w"
  "stderr (snd (probe h path w)) = stderr w"
  using exec_keeps [of h "[path, ''version'']" w]
  by (auto simp: probe_def split: prod.splits)

lemma fallbackProbe_keeps:
  "requests (snd (fallbackProbe h w)) = requests w"
  "stderr (snd (fallbackProbe h w)) = stderr w"
proof -
  have "requests (snd (fallbackProbe h w)) = requests w \<and> stderr (snd (fallbackProbe h w)) = stderr w"
  proof (cases "LookPath h ''go''")
    case None
    then show ?thesis by (simp add: fallbackProbe_def)
  next
    case (Some path)
    with probe_keeps [of h path w] show ?thesis
      by (cases "probe h path w") (auto simp: fallbackProbe_def split: option.splits)
  qed
  then show "requests (snd (fallbackProbe h w)) = requests w"
    and "stderr (snd (fallbackProbe h w)) = stderr w" by simp_all
qed

lemma getInstalledGoVersion_keeps:
  "requests (snd (getInstalledGoVersion h w)) = requests w"
  "stderr (snd (getInstalledGoVersion h w)) = stderr w"
proof -
  have "requests (snd (getInstalledGoVersion h w)) = requests w
      \<and> stderr (snd (getInstalledGoVersion h w)) = stderr w"
  proof (cases "os_Stat w stdGo \<and> files w stdGo \<noteq> Some Dir")
    case False
    then show ?thesis by (auto simp: getInstalledGoVersion_def fallbackProbe_keeps)
  next
    case True
    obtain r w1 where p: "probe h stdGo w = (r, w1)" by (cases "probe h stdGo w")
    with probe_keeps [of h stdGo w] have "requests w1 = requests w" "stderr w1 = stderr w"
      by simp_all
    with True p show ?thesis
      by (cases r) (simp_all add: getInstalledGoVersion_def fallbackProbe_keeps)
  qed
  then show "requests (snd (getInstalledGoVersion h w)) = requests w"
    and "stderr (snd (getInstalledGoVersion h w)) = stderr w" by simp_all
qed

lemma fetchLatestVersion_keeps:
  "requests (snd (fetchLatestVersion h w)) = requests w @ [vURL]"
  "stderr (snd (fetchLatestVersion h w)) = stderr w"
  by (simp_all add: fetchLatestVersion_def Let_def split: option.splits response.splits)

lemma resolveTarget_unsupported:
  assumes "GOOS h \<notin> {''linux'', ''darwin''}
      \<or> GOARCH h \<notin> {''amd64'', ''arm64'', ''386'', ''x86_64'', ''aarch64''}"
  shows "resolveTarget h = Inl (UnsupportedOS (GOOS h))
      \<or> resolveTarget h = Inl (UnsupportedArch (GOARCH h))"
  using assms by (auto simp: resolveTarget_def Let_def)

text \<open>On a platform that is not supported, \<open>main\<close> ends in one of three ways.\<close>

lemma main_unsupported:
  assumes "resolveTarget h = Inl err"
  shows "main h fl w =
     (case (if TrimSpace (versionFlag fl) = [] then fetchLatestVersion h w
            else (Inr (cleanVersionInput (versionFlag fl)), w)) of
        (Inl e, w1) \<Rightarrow> must e ''fetch latest version'' w1
      | (Inr version, w1) \<Rightarrow>
          if fst (getInstalledGoVersion h w1) = Inr version then
            (0, log (''Go is already up to date ('' @ version @ ''). Nothing to do.'')
                  (snd (getInstalledGoVersion h w1)))
          else must err ''resolve target platform'' (snd (getInstalledGoVersion h w1)))"
  using assms by (simp add: main_def split: prod.splits sum.splits)

text \<open>
  C6 (as amended). On a platform whose OS or architecture is not supported: with a version
  given by the user, \<open>main\<close> sends no request at all, and unless the probe reports that very
  version as installed it exits with status 1 on the unsupported-platform error; with no
  version given, the request for the latest version is sent first and is the only one, and
  when it yields a version that the probe does not report as installed, the exit is the same.
\<close>

theorem main_unsupported_platform:
  assumes "GOOS h \<notin> {''linux'', ''darwin''}
      \<or> GOARCH h \<notin> {''amd64'', ''arm64'', ''386'', ''x86_64'', ''aarch64''}"
  shows "\<exists>err. (err = UnsupportedOS (GOOS h) \<or> err = UnsupportedArch (GOARCH h))
    \<and> resolveTarget h = Inl err
    \<and> (TrimSpace (versionFlag fl) \<noteq> [] \<longrightarrow>
          requests (snd (main h fl w)) = requests w
          \<and> (fst (getInstalledGoVersion h w) \<noteq> Inr (cleanVersionInput (versionFlag fl)) \<longrightarrow>
                fst (main h fl w) = 1
                \<and> stderr (snd (main h fl w))
                    = stderr w @ [TextErr ''[go-updater][ERROR] resolve target platform: '' err]))
    \<and> (TrimSpace (versionFlag fl) = [] \<longrightarrow>
          requests (snd (main h fl w)) = requests w @ [vURL]
          \<and> (\<forall>version. fst (fetchLatestVersion h w) = Inr version
                \<and> fst (getInstalledGoVersion h (snd (fetchLatestVersion h w))) \<noteq> Inr version \<longrightarrow>
                fst (main h fl w) = 1
                \<and> stderr (snd (main h fl w))
                    = stderr w @ [TextErr ''[go-updater][ERROR] resolve target platform: '' err]))"
proof -
  from resolveTarget_unsupported [OF assms] obtain err
    where kind: "err = UnsupportedOS (GOOS h) \<or> err = UnsupportedArch (GOARCH h)"
      and err: "resolveTarget h = Inl err" by blast
  note m = main_unsupported [OF err, of fl w]
  have given: "requests (snd (main h fl w)) = requests w
      \<and> (fst (getInstalledGoVersion h w) \<noteq> Inr (cleanVersionInput (versionFlag fl)) \<longrightarrow>
            fst (main h fl w) = 1
            \<and> stderr (snd (main h fl w))
                = stderr w @ [TextErr ''[go-updater][ERROR] resolve target platform: '' err])"
    if "TrimSpace (versionFlag fl) \<noteq> []"
    using that by (simp add: m must_def log_def getInstalledGoVersion_keeps)
  have fetched: "requests (snd (main h fl w)) = requests w @ [vURL]
      \<and> (\<forall>version. fst (fetchLatestVersion h w) = Inr version
            \<and> fst (getInstalledGoVersion h (snd (fetchLatestVersion h w))) \<noteq> Inr version \<longrightarrow>
            fst (main h fl w) = 1
            \<and> stderr (snd (main h fl w))
                = stderr w @ [TextErr ''[go-updater][ERROR] resolve target platform: '' err])"
    if blank: "TrimSpace (versionFlag fl) = []"
  proof -
    obtain r w1 where f: "fetchLatestVersion h w = (r, w1)" by (cases "fetchLatestVersion h w")
    with fetchLatestVersion_keeps [of h w]
    have k: "requests w1 = requests w @ [vURL]" "stderr w1 = stderr w" by simp_all
    show ?thesis
      using blank f k
      by (cases r) (simp_all add: m must_def log_def getInstalledGoVersion_keeps)
  qed
  from kind err given fetched show ?thesis by blast
qed

theorem main_unsupported_platform_witness:
  "GOARCH riscvHost \<notin> {''amd64'', ''arm64'', ''386'', ''x86_64'', ''aarch64''}
   \<and> resolveTarget riscvHost = Inl (UnsupportedArch ''riscv64'')
   \<and> TrimSpace (versionFlag pinned) \<noteq> []
   \<and> fst (getInstalledGoVersion riscvHost emptyWorld) \<noteq> Inr (cleanVersionInput (versionFlag pinned))
   \<and> requests (snd (main riscvHost pinned emptyWorld)) = requests emptyWorld
   \<and> fst (main riscvHost pinned emptyWorld) = 1
   \<and> stderr (snd (main riscvHost pinned emptyWorld))
       = stderr emptyWorld @ [TextErr ''[go-updater][ERROR] resolve target platform: ''
           (UnsupportedArch ''riscv64'')]
   \<and> TrimSpace (versionFlag latest) = []
   \<and> requests (snd (main riscvHost latest emptyWorld)) = requests emptyWorld @ [vURL]
   \<and> fst (fetchLatestVersion riscvHost emptyWorld) = Inr ''go1.25.1''
   \<and> fst (getInstalledGoVersion riscvHost (snd (fetchLatestVersion riscvHost emptyWorld)))
       \<noteq> Inr ''go1.25.1''
   \<and> fst (main riscvHost latest emptyWorld) = 1"
proof -
  have arch: "GOARCH riscvHost \<notin> {''amd64'', ''arm64'', ''386'', ''x86_64'', ''aarch64''}"
    by (simp add: riscvHost_def linuxHost_def)
  then have unsupported: "GOOS riscvHost \<notin> {''linux'', ''darwin''}
      \<or> GOARCH riscvHost \<notin> {''amd64'', ''arm64'', ''386'', ''x86_64'', ''aarch64''}" ..
  have target: "resolveTarget riscvHost = Inl (UnsupportedArch ''riscv64'')"
    by code_simp
  have given: "TrimSpace (versionFlag pinned) \<noteq> []"
    by code_simp
  have blank: "TrimSpace (versionFlag latest) = []"
    by code_simp
  have probe: "fst (getInstalledGoVersion riscvHost emptyWorld)
      \<noteq> Inr (cleanVersionInput (versionFlag pinned))"
    by code_simp
  from main_unsupported_platform [OF unsupported, of pinned emptyWorld] target given probe
  have one: "requests (snd (main riscvHost pinned emptyWorld)) = requests emptyWorld"
    and two: "fst (main riscvHost pinned emptyWorld) = 1"
    and three: "stderr (snd (main riscvHost pinned emptyWorld))
       = stderr emptyWorld @ [TextErr ''[go-updater][ERROR] resolve target platform: ''
           (UnsupportedArch ''riscv64'')]"
    by auto
  have fetched: "fst (fetchLatestVersion riscvHost emptyWorld) = Inr ''go1.25.1''"
    by code_simp
  have probe': "fst (getInstalledGoVersion riscvHost (snd (fetchLatestVersion riscvHost emptyWorld)))
      \<noteq> Inr ''go1.25.1''"
    by code_simp
  from main_unsupported_platform [OF unsupported, of latest emptyWorld] blank
  have four: "requests (snd (main riscvHost latest emptyWorld)) = requests emptyWorld @ [vURL]"
    by auto
  from main_unsupported_platform [OF unsupported, of latest emptyWorld] blank fetched probe'
  have five: "fst (main riscvHost latest emptyWorld) = 1"
    by auto
  from arch target given probe one two three blank four fetched probe' five show ?thesis
    by (intro conjI)
qed

text \<open>
  C6 as stated fails on the path that fetches the latest version: on the unsupported
  architecture the run does end with the unsupported-platform error, but only after it has
  sent the request for the version.
\<close>

theorem main_fetches_before_platform_counterexample:
  "resolveTarget riscvHost = Inl (UnsupportedArch ''riscv64'')
   \<and> requests emptyWorld = []
   \<and> (case main riscvHost latest emptyWorld of
         (status, w) \<Rightarrow>
           status = 1
           \<and> stderr w = [TextErr ''[go-updater][ERROR] resolve target platform: ''
                 (UnsupportedArch ''riscv64'')]
           \<and> requests w = [''https://go.dev/VERSION?m=text''])"
  by code_simp

section \<open>The archive that a failed download leaves\<close>

subsection \<open>Only the two fetches send requests\<close>

lemma log_requests: "requests (log text w) = requests w"
  by (simp add: log_def)













end
